theory Spec2Isabelle
  imports Complex_Main
begin

section \<open>JavaScript values\<close>

text \<open>
  The extension is a JavaScript class. A method either returns or throws; the only
  exception its own code can raise is the \<open>TypeError\<close> of a property read on
  \<open>null\<close> or \<open>undefined\<close>. The fields it assigned before throwing stay assigned, so
  a thrown completion carries the state as well.
\<close>

datatype js_error = TypeError

type_synonym 'a completion = "js_error \<times> 'a + 'a"

definition threw :: "'a completion \<Rightarrow> bool" where
  "threw c = (case c of Inl _ \<Rightarrow> True | Inr _ \<Rightarrow> False)"

definition state_of :: "'a completion \<Rightarrow> 'a" where
  "state_of c = (case c of Inl (e, s) \<Rightarrow> s | Inr s \<Rightarrow> s)"

text \<open>
  A JavaScript number is an IEEE double: a finite value, one of the two infinities, or
  NaN. The model keeps a finite one as the real it denotes; the sign of zero is not
  modelled. \<open>Scratch.Cast.toNumber\<close>, the host's function every numeric block argument
  passes through, returns a number that is never NaN.
\<close>

datatype number = Num real | PosInf | NegInf | NaN

text \<open>Exact arithmetic, continued to the infinities and NaN as IEEE 754 has it.\<close>

fun negative :: "number \<Rightarrow> bool" where
  "negative (Num x) = (x < 0)"
| "negative NegInf = True"
| "negative _ = False"

definition infinity :: "bool \<Rightarrow> number" where
  "infinity neg = (if neg then NegInf else PosInf)"

fun nneg :: "number \<Rightarrow> number" where
  "nneg (Num x) = Num (- x)"
| "nneg PosInf = NegInf"
| "nneg NegInf = PosInf"
| "nneg NaN = NaN"

fun nadd :: "number \<Rightarrow> number \<Rightarrow> number" where
  "nadd (Num x) (Num y) = Num (x + y)"
| "nadd NaN b = NaN"
| "nadd a NaN = NaN"
| "nadd PosInf NegInf = NaN"
| "nadd NegInf PosInf = NaN"
| "nadd PosInf b = PosInf"
| "nadd NegInf b = NegInf"
| "nadd a PosInf = PosInf"
| "nadd a NegInf = NegInf"

definition nsub :: "number \<Rightarrow> number \<Rightarrow> number" where
  "nsub a b = nadd a (nneg b)"

fun nmul :: "number \<Rightarrow> number \<Rightarrow> number" where
  "nmul (Num x) (Num y) = Num (x * y)"
| "nmul NaN b = NaN"
| "nmul a NaN = NaN"
| "nmul a b =
     (if a = Num 0 \<or> b = Num 0 then NaN else infinity (negative a \<noteq> negative b))"

text \<open>
  A finite number divided by zero is an infinity, zero by zero is NaN; never HOL's
  \<open>x / 0 = 0\<close>.
\<close>

fun ndiv :: "number \<Rightarrow> number \<Rightarrow> number" where
  "ndiv (Num x) (Num y) =
     (if y = 0 then (if x = 0 then NaN else infinity (x < 0)) else Num (x / y))"
| "ndiv NaN b = NaN"
| "ndiv a NaN = NaN"
| "ndiv (Num x) b = Num 0"
| "ndiv a (Num y) = infinity (negative a \<noteq> (y < 0))"
| "ndiv a b = NaN"

subsection \<open>Rounding\<close>

text \<open>
  Rounding to the nearest number of a binary format with \<open>p\<close> significant bits and the
  exponents \<open>emin\<close> to \<open>emin + n\<close>, ties to the even significand. \<open>binade\<close> is the
  exponent of the binade the magnitude \<open>a\<close> lies in: the largest \<open>e\<close> of the format with
  \<open>2 powi e \<le> a\<close>, and \<open>emin\<close> below that (the subnormal numbers and zero). The numbers
  of a binade are the multiples of its unit in the last place. A result of magnitude
  \<open>2 powi (emin + n + 1)\<close> or more is an infinity.
\<close>

fun binade :: "int \<Rightarrow> nat \<Rightarrow> real \<Rightarrow> int" where
  "binade emin 0 a = emin"
| "binade emin (Suc k) a =
     (if 2 powi (emin + int (Suc k)) \<le> a then emin + int (Suc k) else binade emin k a)"

definition round_half_even :: "real \<Rightarrow> int" where
  "round_half_even m =
     (if m - of_int \<lfloor>m\<rfloor> < 1 / 2 then \<lfloor>m\<rfloor>
      else if 1 / 2 < m - of_int \<lfloor>m\<rfloor> then \<lfloor>m\<rfloor> + 1
      else if even \<lfloor>m\<rfloor> then \<lfloor>m\<rfloor> else \<lfloor>m\<rfloor> + 1)"

definition ieee_round :: "nat \<Rightarrow> int \<Rightarrow> nat \<Rightarrow> real \<Rightarrow> number" where
  "ieee_round p emin n x =
     (let ulp = 2 powi (binade emin n \<bar>x\<bar> - int p + 1);
          r = of_int (round_half_even (\<bar>x\<bar> / ulp)) * ulp
      in if 2 powi (emin + int n + 1) \<le> r then infinity (x < 0)
         else Num (if x < 0 then - r else r))"

text \<open>Single precision: 24 bits, exponents -126 to 127.\<close>

definition float32 :: "real \<Rightarrow> number" where
  "float32 x = ieee_round 24 (- 126) 253 x"

text \<open>Double precision: 53 bits, exponents -1022 to 1023.\<close>

definition float64 :: "real \<Rightarrow> number" where
  "float64 x = ieee_round 53 (- 1022) 2045 x"

text \<open>
  The conversion of a number to single precision, which storing it in a
  \<open>Float32Array\<close> performs.
\<close>

fun fround :: "number \<Rightarrow> number" where
  "fround (Num x) = float32 x"
| "fround a = a"

definition Float32Array :: "number list \<Rightarrow> number list" where
  "Float32Array xs = map fround xs"

text \<open>
  The arithmetic of \<open>drawGPULine\<close> on numbers: the exact result, rounded to double
  precision.
\<close>

fun to_double :: "number \<Rightarrow> number" where
  "to_double (Num x) = float64 x"
| "to_double a = a"

definition js_add :: "number \<Rightarrow> number \<Rightarrow> number" where
  "js_add a b = to_double (nadd a b)"

definition js_sub :: "number \<Rightarrow> number \<Rightarrow> number" where
  "js_sub a b = to_double (nsub a b)"

definition js_div :: "number \<Rightarrow> number \<Rightarrow> number" where
  "js_div a b = to_double (ndiv a b)"

text \<open>\<open>ToNumber\<close> of a property that may be \<open>undefined\<close> (\<open>None\<close>).\<close>

definition to_number :: "nat option \<Rightarrow> number" where
  "to_number v = (case v of None \<Rightarrow> NaN | Some n \<Rightarrow> Num (real n))"

text \<open>
  The conversion of such a property to an integer parameter (a canvas dimension, a
  viewport size): \<open>undefined\<close> becomes 0.
\<close>

definition to_long :: "nat option \<Rightarrow> nat" where
  "to_long v = (case v of None \<Rightarrow> 0 | Some n \<Rightarrow> n)"

section \<open>The resolution table\<close>

text \<open>
  \<open>this.resolution\<close> holds whatever \<open>resolutions[quality] || resolutions['1080p']\<close>
  evaluates to. \<open>resolutions\<close> is an object literal, so the lookup also finds the
  properties it inherits from \<open>Object.prototype\<close>; each of those is a function or an
  object, hence truthy, and has neither a \<open>width\<close> nor a \<open>height\<close>.
\<close>

datatype resolution_value = Res nat nat | Inherited string

definition resolutions :: "(string \<times> nat \<times> nat) list" where
  "resolutions =
     [(''480p'', 854, 480),
      (''720p'', 1280, 720),
      (''1080p'', 1920, 1080),
      (''2K'', 2560, 1440),
      (''4K'', 3840, 2160)]"

definition Object_prototype :: "string list" where
  "Object_prototype =
     [''constructor'', ''__proto__'', ''hasOwnProperty'', ''isPrototypeOf'',
      ''propertyIsEnumerable'', ''toLocaleString'', ''toString'', ''valueOf'',
      ''__defineGetter__'', ''__defineSetter__'', ''__lookupGetter__'',
      ''__lookupSetter__'']"

text \<open>\<open>resolutions[quality]\<close>; \<open>None\<close> is \<open>undefined\<close>.\<close>

definition get_resolution :: "string \<Rightarrow> resolution_value option" where
  "get_resolution quality =
     (case map_of resolutions quality of
        Some (w, h) \<Rightarrow> Some (Res w h)
      | None \<Rightarrow> if quality \<in> set Object_prototype then Some (Inherited quality) else None)"

text \<open>\<open>resolutions[quality] || resolutions['1080p']\<close>.\<close>

definition resolution_or_1080p :: "string \<Rightarrow> resolution_value" where
  "resolution_or_1080p quality =
     (case get_resolution quality of Some v \<Rightarrow> v | None \<Rightarrow> Res 1920 1080)"

text \<open>\<open>.width\<close> and \<open>.height\<close> of \<open>this.resolution\<close>; \<open>None\<close> is \<open>undefined\<close>.\<close>

fun res_width :: "resolution_value \<Rightarrow> nat option" where
  "res_width (Res w h) = Some w"
| "res_width (Inherited k) = None"

fun res_height :: "resolution_value \<Rightarrow> nat option" where
  "res_height (Res w h) = Some h"
| "res_height (Inherited k) = None"

section \<open>The graphics context\<close>

text \<open>
  The WebGL context is the host's. The model keeps the part of its state that the
  calls of this extension read or write: the blend and clear settings, the viewport,
  the program objects with their uniforms, the buffer objects, the vertex attribute
  arrays and the drawing buffer. A call the context rejects records a GL error and
  changes nothing; it never throws. The context keeps a number it is handed (a line
  width, a uniform) as the extension passed it: the rounding to single precision is
  modelled where the extension itself performs it, in the \<open>Float32Array\<close>s of
  \<open>drawGPULine\<close>.
\<close>

datatype gl_version = WebGL1 | WebGL2

datatype blend_factor = ZERO | ONE | SRC_ALPHA | ONE_MINUS_SRC_ALPHA

text \<open>
  The two vertex shader sources of the repository: the one of
  \<open>polyair-extension.js\<close>, and the older one that multiplies the position by the
  uniform \<open>u_transform\<close> first.
\<close>

datatype vertex_source = VS_plain | VS_transform

datatype shader = VertexShader vertex_source | FragmentShader

type_synonym vec2 = "number \<times> number"

type_synonym mat3 = "(real \<times> real \<times> real) \<times> (real \<times> real \<times> real) \<times> (real \<times> real \<times> real)"

record gl_program =
  vertex_stage :: "vertex_source option"
  fragment_stage :: bool
  linked :: bool
  u_resolution :: vec2
  u_transform :: mat3

datatype uniform_location = UniformLocation nat string

record attrib_array =
  enabled :: bool
  source :: "nat option"
  components :: nat

text \<open>
  One rasterised line segment: the positions and colours its two vertices were given
  (pixel space), the positions the vertex stage computed from them (clip space), and
  the line width in force.
\<close>

record stroke =
  pixel0 :: vec2
  pixel1 :: vec2
  clip0 :: vec2
  clip1 :: vec2
  color0 :: "number list"
  color1 :: "number list"
  stroke_width :: real

text \<open>
  The drawing buffer: the colour it was last cleared to and the segments drawn
  since.
\<close>

record surface =
  background :: "real \<times> real \<times> real \<times> real"
  strokes :: "stroke list"

definition transparent :: surface where
  "transparent = \<lparr>background = (0, 0, 0, 0), strokes = []\<rparr>"

record gl_context =
  version :: gl_version
  blend :: bool
  blend_func :: "blend_factor \<times> blend_factor"
  clear_color :: "real \<times> real \<times> real \<times> real"
  viewport :: "nat \<times> nat \<times> nat \<times> nat"
  line_width :: real
  programs :: "nat \<rightharpoonup> gl_program"
  next_program :: nat
  current_program :: "nat option"
  buffers :: "nat \<rightharpoonup> number list"
  next_buffer :: nat
  array_buffer :: "nat option"
  attribs :: "nat \<Rightarrow> attrib_array"
  drawing_buffer :: surface

record canvas =
  cv_width :: nat
  cv_height :: nat

text \<open>
  The state of a context that \<open>getContext\<close> has just created on a canvas. The
  attributes the extension asks for are not in the model, but for what
  \<open>preserveDrawingBuffer: true\<close> gives: the drawing buffer keeps its content from one
  call to the next.
\<close>

definition fresh_context :: "gl_version \<Rightarrow> canvas \<Rightarrow> gl_context" where
  "fresh_context v c =
     \<lparr>version = v, blend = False, blend_func = (ONE, ZERO), clear_color = (0, 0, 0, 0),
      viewport = (0, 0, cv_width c, cv_height c), line_width = 1,
      programs = Map.empty, next_program = 0, current_program = None,
      buffers = Map.empty, next_buffer = 0, array_buffer = None,
      attribs = (\<lambda>i. \<lparr>enabled = False, source = None, components = 4\<rparr>),
      drawing_buffer = transparent\<rparr>"

subsection \<open>State setting, clearing\<close>

definition gl_enable_BLEND :: "gl_context \<Rightarrow> gl_context" where
  "gl_enable_BLEND g = g\<lparr>blend := True\<rparr>"

definition gl_blendFunc :: "blend_factor \<Rightarrow> blend_factor \<Rightarrow> gl_context \<Rightarrow> gl_context" where
  "gl_blendFunc sf df g = g\<lparr>blend_func := (sf, df)\<rparr>"

definition gl_clearColor :: "real \<Rightarrow> real \<Rightarrow> real \<Rightarrow> real \<Rightarrow> gl_context \<Rightarrow> gl_context" where
  "gl_clearColor cr cg cb ca g = g\<lparr>clear_color := (cr, cg, cb, ca)\<rparr>"

text \<open>\<open>gl.clear(gl.COLOR_BUFFER_BIT)\<close>.\<close>

definition gl_clear :: "gl_context \<Rightarrow> gl_context" where
  "gl_clear g = g\<lparr>drawing_buffer := \<lparr>background = clear_color g, strokes = []\<rparr>\<rparr>"

definition gl_viewport :: "nat \<Rightarrow> nat \<Rightarrow> nat \<Rightarrow> nat \<Rightarrow> gl_context \<Rightarrow> gl_context" where
  "gl_viewport x y w h g = g\<lparr>viewport := (x, y, w, h)\<rparr>"

text \<open>A width that is not positive is rejected.\<close>

definition gl_lineWidth :: "real \<Rightarrow> gl_context \<Rightarrow> gl_context" where
  "gl_lineWidth w g = (if w \<le> 0 then g else g\<lparr>line_width := w\<rparr>)"

subsection \<open>Programs\<close>

definition zero_mat3 :: mat3 where
  "zero_mat3 = ((0, 0, 0), (0, 0, 0), (0, 0, 0))"

definition gl_createProgram :: "gl_context \<Rightarrow> nat \<times> gl_context" where
  "gl_createProgram g =
     (next_program g,
      g\<lparr>programs := (programs g)(next_program g \<mapsto>
           \<lparr>vertex_stage = None, fragment_stage = False, linked = False,
            u_resolution = (Num 0, Num 0), u_transform = zero_mat3\<rparr>),
        next_program := Suc (next_program g)\<rparr>)"

definition gl_attachShader :: "nat \<Rightarrow> shader \<Rightarrow> gl_context \<Rightarrow> gl_context" where
  "gl_attachShader p sh g =
     (case programs g p of
        None \<Rightarrow> g
      | Some pr \<Rightarrow>
          g\<lparr>programs := (programs g)(p \<mapsto>
               (case sh of
                  VertexShader src \<Rightarrow> pr\<lparr>vertex_stage := Some src\<rparr>
                | FragmentShader \<Rightarrow> pr\<lparr>fragment_stage := True\<rparr>))\<rparr>)"

text \<open>
  Whether the driver links the two stages is the environment's answer \<open>ok\<close>; a
  program without both stages never links.
\<close>

definition gl_linkProgram :: "bool \<Rightarrow> nat \<Rightarrow> gl_context \<Rightarrow> gl_context" where
  "gl_linkProgram ok p g =
     (case programs g p of
        None \<Rightarrow> g
      | Some pr \<Rightarrow>
          g\<lparr>programs := (programs g)(p \<mapsto>
               pr\<lparr>linked := (ok \<and> vertex_stage pr \<noteq> None \<and> fragment_stage pr)\<rparr>)\<rparr>)"

text \<open>\<open>gl.getProgramParameter(p, gl.LINK_STATUS)\<close>.\<close>

definition gl_LINK_STATUS :: "nat \<Rightarrow> gl_context \<Rightarrow> bool" where
  "gl_LINK_STATUS p g = (case programs g p of None \<Rightarrow> False | Some pr \<Rightarrow> linked pr)"

text \<open>Only a linked program can be made current.\<close>

definition gl_useProgram :: "nat \<Rightarrow> gl_context \<Rightarrow> gl_context" where
  "gl_useProgram p g =
     (if gl_LINK_STATUS p g then g\<lparr>current_program := Some p\<rparr> else g)"

text \<open>
  The linker gives \<open>a_position\<close> the attribute index 0 and \<open>a_color\<close> the index 1;
  an unknown name, or a program that is not linked, gives -1.
\<close>

definition gl_getAttribLocation :: "nat \<Rightarrow> string \<Rightarrow> gl_context \<Rightarrow> int" where
  "gl_getAttribLocation p name g =
     (if \<not> gl_LINK_STATUS p g then - 1
      else if name = ''a_position'' then 0
      else if name = ''a_color'' then 1
      else - 1)"

fun uniforms_of :: "vertex_source \<Rightarrow> string list" where
  "uniforms_of VS_plain = [''u_resolution'']"
| "uniforms_of VS_transform = [''u_resolution'', ''u_transform'']"

text \<open>\<open>None\<close> is the \<open>null\<close> of a name that is no uniform of the linked program.\<close>

definition gl_getUniformLocation :: "nat \<Rightarrow> string \<Rightarrow> gl_context \<Rightarrow> uniform_location option" where
  "gl_getUniformLocation p name g =
     (case programs g p of
        None \<Rightarrow> None
      | Some pr \<Rightarrow>
          (case vertex_stage pr of
             None \<Rightarrow> None
           | Some src \<Rightarrow>
               if linked pr \<and> name \<in> set (uniforms_of src)
               then Some (UniformLocation p name) else None))"

text \<open>
  A uniform call with the location \<open>null\<close> is ignored; a location of a program that
  is not the current one, or of a uniform of another type, is rejected.
\<close>

definition gl_uniform2f :: "uniform_location option \<Rightarrow> number \<Rightarrow> number \<Rightarrow> gl_context \<Rightarrow> gl_context" where
  "gl_uniform2f loc x y g =
     (case loc of
        None \<Rightarrow> g
      | Some (UniformLocation p name) \<Rightarrow>
          (case programs g p of
             None \<Rightarrow> g
           | Some pr \<Rightarrow>
               if current_program g = Some p \<and> name = ''u_resolution''
               then g\<lparr>programs := (programs g)(p \<mapsto> pr\<lparr>u_resolution := (x, y)\<rparr>)\<rparr>
               else g))"

text \<open>
  \<open>gl.uniformMatrix3fv(loc, false, data)\<close>: nine numbers, column by column; any other
  length is rejected.
\<close>

definition gl_uniformMatrix3fv :: "uniform_location option \<Rightarrow> real list \<Rightarrow> gl_context \<Rightarrow> gl_context" where
  "gl_uniformMatrix3fv loc data g =
     (case loc of
        None \<Rightarrow> g
      | Some (UniformLocation p name) \<Rightarrow>
          (case programs g p of
             None \<Rightarrow> g
           | Some pr \<Rightarrow>
               if current_program g = Some p \<and> name = ''u_transform''
               then (case data of
                       [m00, m01, m02, m10, m11, m12, m20, m21, m22] \<Rightarrow>
                         g\<lparr>programs := (programs g)(p \<mapsto>
                              pr\<lparr>u_transform := ((m00, m01, m02), (m10, m11, m12), (m20, m21, m22))\<rparr>)\<rparr>
                     | _ \<Rightarrow> g)
               else g))"

subsection \<open>Buffers and vertex attribute arrays\<close>

definition gl_createBuffer :: "gl_context \<Rightarrow> nat \<times> gl_context" where
  "gl_createBuffer g =
     (next_buffer g,
      g\<lparr>buffers := (buffers g)(next_buffer g \<mapsto> []), next_buffer := Suc (next_buffer g)\<rparr>)"

text \<open>\<open>gl.bindBuffer(gl.ARRAY_BUFFER, b)\<close>; a deleted buffer is rejected.\<close>

definition gl_bindBuffer :: "nat \<Rightarrow> gl_context \<Rightarrow> gl_context" where
  "gl_bindBuffer b g =
     (case buffers g b of None \<Rightarrow> g | Some _ \<Rightarrow> g\<lparr>array_buffer := Some b\<rparr>)"

text \<open>\<open>gl.bufferData(gl.ARRAY_BUFFER, data, gl.STATIC_DRAW)\<close>.\<close>

definition gl_bufferData :: "number list \<Rightarrow> gl_context \<Rightarrow> gl_context" where
  "gl_bufferData data g =
     (case array_buffer g of
        None \<Rightarrow> g
      | Some b \<Rightarrow> g\<lparr>buffers := (buffers g)(b \<mapsto> data)\<rparr>)"

definition gl_enableVertexAttribArray :: "int \<Rightarrow> gl_context \<Rightarrow> gl_context" where
  "gl_enableVertexAttribArray i g =
     (if i < 0 then g
      else g\<lparr>attribs := (attribs g)(nat i := (attribs g (nat i))\<lparr>enabled := True\<rparr>)\<rparr>)"

text \<open>
  \<open>gl.vertexAttribPointer(i, n, gl.FLOAT, false, 0, 0)\<close>: the array \<open>i\<close> reads
  \<open>n\<close> floats per vertex, tightly packed, from the buffer bound now.
\<close>

definition gl_vertexAttribPointer :: "int \<Rightarrow> nat \<Rightarrow> gl_context \<Rightarrow> gl_context" where
  "gl_vertexAttribPointer i n g =
     (if i < 0 \<or> n < 1 \<or> 4 < n then g
      else g\<lparr>attribs := (attribs g)(nat i :=
             (attribs g (nat i))\<lparr>source := array_buffer g, components := n\<rparr>)\<rparr>)"

definition gl_deleteBuffer :: "nat \<Rightarrow> gl_context \<Rightarrow> gl_context" where
  "gl_deleteBuffer b g =
     g\<lparr>buffers := (buffers g)(b := None),
       array_buffer := (if array_buffer g = Some b then None else array_buffer g)\<rparr>"

subsection \<open>The vertex stage and the draw call\<close>

text \<open>
  \<open>vec2 clipSpace = (a_position / u_resolution) * 2.0 - 1.0; clipSpace.y *= -1.0;\<close>
  The arithmetic of the vertex stage is taken as exact.
\<close>

fun clip_space :: "vec2 \<Rightarrow> vec2 \<Rightarrow> vec2" where
  "clip_space (rw, rh) (x, y) =
     (nsub (nmul (ndiv x rw) (Num 2)) (Num 1),
      nmul (nsub (nmul (ndiv y rh) (Num 2)) (Num 1)) (Num (- 1)))"

text \<open>
  \<open>(u_transform * vec3(a_position, 1.0)).xy\<close>, the matrix given by its columns.
\<close>

fun apply_transform :: "mat3 \<Rightarrow> vec2 \<Rightarrow> vec2" where
  "apply_transform ((c0x, c0y, c0z), (c1x, c1y, c1z), (c2x, c2y, c2z)) (x, y) =
     (nadd (nadd (nmul (Num c0x) x) (nmul (Num c1x) y)) (nmul (Num c2x) (Num 1)),
      nadd (nadd (nmul (Num c0y) x) (nmul (Num c1y) y)) (nmul (Num c2y) (Num 1)))"

fun vertex_main :: "vertex_source \<Rightarrow> gl_program \<Rightarrow> vec2 \<Rightarrow> vec2" where
  "vertex_main VS_plain pr pos = clip_space (u_resolution pr) pos"
| "vertex_main VS_transform pr pos =
     clip_space (u_resolution pr) (apply_transform (u_transform pr) pos)"

text \<open>
  What a vertex reads from an attribute: the components the array holds for it,
  filled up to four from (0, 0, 0, 1). A disabled array gives the constant
  (0, 0, 0, 1). An array whose buffer was deleted or is too short makes the draw call
  fail (\<open>None\<close>).
\<close>

definition pad4 :: "number list \<Rightarrow> number list" where
  "pad4 xs = take 4 (xs @ drop (length xs) [Num 0, Num 0, Num 0, Num 1])"

definition attribute_value :: "gl_context \<Rightarrow> nat \<Rightarrow> nat \<Rightarrow> number list option" where
  "attribute_value g i k =
     (if \<not> enabled (attribs g i) then Some (pad4 [])
      else (case source (attribs g i) of
              None \<Rightarrow> None
            | Some b \<Rightarrow>
                (case buffers g b of
                   None \<Rightarrow> None
                 | Some data \<Rightarrow>
                     if (k + 1) * components (attribs g i) \<le> length data
                     then Some (pad4 (take (components (attribs g i))
                                       (drop (k * components (attribs g i)) data)))
                     else None)))"

fun xy :: "number list \<Rightarrow> vec2" where
  "xy (x # y # rest) = (x, y)"
| "xy _ = (Num 0, Num 0)"

text \<open>The segment between the vertices \<open>k0\<close> and \<open>k1\<close>, as the program \<open>pr\<close> shades it.\<close>

definition shade_segment :: "gl_context \<Rightarrow> vertex_source \<Rightarrow> gl_program \<Rightarrow> nat \<times> nat \<Rightarrow> stroke option" where
  "shade_segment g src pr ks =
     (case (attribute_value g 0 (fst ks), attribute_value g 0 (snd ks),
            attribute_value g 1 (fst ks), attribute_value g 1 (snd ks)) of
        (Some p0, Some p1, Some c0, Some c1) \<Rightarrow>
          Some \<lparr>pixel0 = xy p0, pixel1 = xy p1,
                clip0 = vertex_main src pr (xy p0), clip1 = vertex_main src pr (xy p1),
                color0 = c0, color1 = c1, stroke_width = line_width g\<rparr>
      | _ \<Rightarrow> None)"

text \<open>\<open>gl.LINES\<close>: every two vertices make one segment; an odd last vertex is dropped.\<close>

fun line_segments :: "nat \<Rightarrow> nat \<Rightarrow> (nat \<times> nat) list" where
  "line_segments first (Suc (Suc n)) = (first, first + 1) # line_segments (first + 2) n"
| "line_segments first _ = []"

text \<open>
  \<open>gl.drawArrays(gl.LINES, first, count)\<close>. Without a current program, or when an
  attribute cannot be read, nothing is drawn.
\<close>

definition gl_drawArrays_LINES :: "nat \<Rightarrow> nat \<Rightarrow> gl_context \<Rightarrow> gl_context" where
  "gl_drawArrays_LINES first count g =
     (case current_program g of
        None \<Rightarrow> g
      | Some p \<Rightarrow>
          (case programs g p of
             None \<Rightarrow> g
           | Some pr \<Rightarrow>
               (case vertex_stage pr of
                  None \<Rightarrow> g
                | Some src \<Rightarrow>
                    (case those (map (shade_segment g src pr) (line_segments first count)) of
                       None \<Rightarrow> g
                     | Some drawn \<Rightarrow>
                         g\<lparr>drawing_buffer := (drawing_buffer g)
                              \<lparr>strokes := strokes (drawing_buffer g) @ drawn\<rparr>\<rparr>))))"

section \<open>The extension\<close>

record pen_color =
  col_r :: real
  col_g :: real
  col_b :: real
  col_a :: real

record program_info =
  loc_position :: int
  loc_color :: int
  loc_resolution :: "uniform_location option"
  loc_transform :: "uniform_location option"

text \<open>
  The fields of a \<open>PolyairExtension\<close>. \<open>None\<close> is \<open>null\<close>. \<open>loc_transform\<close> exists in the
  older variant only; \<open>polyair-extension.js\<close> never stores nor reads it.
\<close>

record polyair =
  glCanvas :: "canvas option"
  gl :: "gl_context option"
  resolution :: resolution_value
  targetResolution :: string
  gpuSprites :: "string set"
  shaderProgram :: "nat option"
  programInfo :: "program_info option"
  penColor :: pen_color
  penWidth :: real

text \<open>
  What the browser answers during construction: whether it hands out a WebGL2 or a
  WebGL1 context, whether its driver compiles each stage and links the program.
\<close>

record gl_env =
  webgl2_available :: bool
  webgl1_available :: bool
  vertex_compiles :: bool
  fragment_compiles :: bool
  program_links :: bool

definition getContext :: "gl_env \<Rightarrow> gl_version \<Rightarrow> canvas \<Rightarrow> gl_context option" where
  "getContext env v c =
     (if (case v of WebGL2 \<Rightarrow> webgl2_available env | WebGL1 \<Rightarrow> webgl1_available env)
      then Some (fresh_context v c) else None)"

text \<open>
  \<open>compileShader(source, type)\<close>: the shader, or \<open>null\<close> when it does not compile. The
  shader objects themselves are not kept in the model.
\<close>

definition compileShader :: "gl_env \<Rightarrow> shader \<Rightarrow> shader option" where
  "compileShader env sh =
     (if (case sh of VertexShader src \<Rightarrow> vertex_compiles env
                   | FragmentShader \<Rightarrow> fragment_compiles env)
      then Some sh else None)"

subsection \<open>Construction (polyair-extension.js)\<close>

definition initShaders :: "gl_env \<Rightarrow> polyair \<Rightarrow> polyair completion" where
  "initShaders env s =
     (case gl s of
        None \<Rightarrow> Inl (TypeError, s)
      | Some g \<Rightarrow>
          (let vertexShader = compileShader env (VertexShader VS_plain);
               fragmentShader = compileShader env FragmentShader
           in case (vertexShader, fragmentShader) of
                (Some vs, Some fs) \<Rightarrow>
                  (let (p, g1) = gl_createProgram g;
                       g2 = gl_attachShader p vs g1;
                       g3 = gl_attachShader p fs g2;
                       g4 = gl_linkProgram (program_links env) p g3;
                       s1 = s\<lparr>gl := Some g4, shaderProgram := Some p\<rparr>
                   in if \<not> gl_LINK_STATUS p g4 then Inr s1
                      else Inr (s1\<lparr>programInfo := Some
                             \<lparr>loc_position = gl_getAttribLocation p ''a_position'' g4,
                              loc_color = gl_getAttribLocation p ''a_color'' g4,
                              loc_resolution = gl_getUniformLocation p ''u_resolution'' g4,
                              loc_transform = None\<rparr>\<rparr>))
              | _ \<Rightarrow> Inr s))"

text \<open>
  The body of \<open>initWebGL\<close> stands in a \<open>try\<close> whose handler only logs: a throw ends
  the initialisation with the state reached so far.
\<close>

definition initWebGL :: "gl_env \<Rightarrow> polyair \<Rightarrow> polyair" where
  "initWebGL env s =
     (let c = \<lparr>cv_width = to_long (res_width (resolution s)),
               cv_height = to_long (res_height (resolution s))\<rparr>;
          s1 = s\<lparr>glCanvas := Some c\<rparr>;
          s2 = s1\<lparr>gl := (case getContext env WebGL2 c of
                           Some g \<Rightarrow> Some g
                         | None \<Rightarrow> getContext env WebGL1 c)\<rparr>
      in case gl s2 of
           None \<Rightarrow> s2
         | Some _ \<Rightarrow>
             (case initShaders env s2 of
                Inl (e, s3) \<Rightarrow> s3
              | Inr s3 \<Rightarrow>
                  (case gl s3 of
                     None \<Rightarrow> s3
                   | Some g \<Rightarrow>
                       s3\<lparr>gl := Some (gl_clear (gl_clearColor 0 0 0 0
                               (gl_blendFunc SRC_ALPHA ONE_MINUS_SRC_ALPHA
                                 (gl_enable_BLEND g))))\<rparr>)))"

definition new_PolyairExtension :: "gl_env \<Rightarrow> polyair" where
  "new_PolyairExtension env =
     initWebGL env
       \<lparr>glCanvas = None, gl = None, resolution = Res 854 480, targetResolution = ''480p'',
        gpuSprites = {}, shaderProgram = None, programInfo = None,
        penColor = \<lparr>col_r = 1, col_g = 1, col_b = 1, col_a = 1\<rparr>, penWidth = 1\<rparr>"

subsection \<open>The blocks (polyair-extension.js)\<close>

text \<open>The sprite is \<open>util.target.id\<close>, which the host supplies.\<close>

definition enableGPURendering :: "string \<Rightarrow> polyair \<Rightarrow> polyair" where
  "enableGPURendering targetId s = s\<lparr>gpuSprites := insert targetId (gpuSprites s)\<rparr>"

definition disableGPURendering :: "string \<Rightarrow> polyair \<Rightarrow> polyair" where
  "disableGPURendering targetId s = s\<lparr>gpuSprites := gpuSprites s - {targetId}\<rparr>"

definition isGPUEnabled :: "string \<Rightarrow> polyair \<Rightarrow> bool" where
  "isGPUEnabled targetId s = (targetId \<in> gpuSprites s)"

text \<open>
  An assignment to \<open>glCanvas.width\<close> or \<open>glCanvas.height\<close>. The context in \<open>gl\<close> is the
  one of this canvas: when the dimension changes, its drawing buffer is reallocated,
  transparent. Both are used only where the canvas is known to exist.
\<close>

definition assign_canvas_width :: "nat \<Rightarrow> polyair \<Rightarrow> polyair" where
  "assign_canvas_width w s =
     (case glCanvas s of
        None \<Rightarrow> s
      | Some c \<Rightarrow>
          s\<lparr>glCanvas := Some (c\<lparr>cv_width := w\<rparr>),
            gl := (if w = cv_width c then gl s
                   else map_option (\<lambda>g. g\<lparr>drawing_buffer := transparent\<rparr>) (gl s))\<rparr>)"

definition assign_canvas_height :: "nat \<Rightarrow> polyair \<Rightarrow> polyair" where
  "assign_canvas_height h s =
     (case glCanvas s of
        None \<Rightarrow> s
      | Some c \<Rightarrow>
          s\<lparr>glCanvas := Some (c\<lparr>cv_height := h\<rparr>),
            gl := (if h = cv_height c then gl s
                   else map_option (\<lambda>g. g\<lparr>drawing_buffer := transparent\<rparr>) (gl s))\<rparr>)"

definition setResolution :: "string \<Rightarrow> polyair \<Rightarrow> polyair completion" where
  "setResolution quality s =
     (let s1 = s\<lparr>resolution := resolution_or_1080p quality\<rparr>;
          s2 = s1\<lparr>targetResolution := quality\<rparr>;
          s3 = (case glCanvas s2 of
                  None \<Rightarrow> s2
                | Some c \<Rightarrow>
                    assign_canvas_height (to_long (res_height (resolution s2)))
                      (assign_canvas_width (to_long (res_width (resolution s2))) s2))
      in case gl s3 of
           None \<Rightarrow> Inr s3
         | Some g \<Rightarrow>
             Inr (s3\<lparr>gl := Some (gl_clear (gl_clearColor 0 0 0 0
                    (gl_viewport 0 0 (to_long (res_width (resolution s3)))
                       (to_long (res_height (resolution s3))) g)))\<rparr>))"

definition getResolutionWidth :: "polyair \<Rightarrow> nat option" where
  "getResolutionWidth s = res_width (resolution s)"

definition getResolutionHeight :: "polyair \<Rightarrow> nat option" where
  "getResolutionHeight s = res_height (resolution s)"

text \<open>The arguments are the results of \<open>Scratch.Cast.toNumber\<close>, here finite.\<close>

definition setPenColor :: "real \<Rightarrow> real \<Rightarrow> real \<Rightarrow> polyair \<Rightarrow> polyair" where
  "setPenColor R G B s =
     (let r = max 0 (min 255 R) / 255;
          g = max 0 (min 255 G) / 255;
          b = max 0 (min 255 B) / 255
      in s\<lparr>penColor := \<lparr>col_r = r, col_g = g, col_b = b, col_a = 1\<rparr>\<rparr>)"

definition setPenWidth :: "real \<Rightarrow> polyair \<Rightarrow> polyair" where
  "setPenWidth WIDTH s = s\<lparr>penWidth := max 1 WIDTH\<rparr>"

text \<open>
  The four coordinates are the results of \<open>Scratch.Cast.toNumber\<close>: finite or infinite.
  The vertices are computed in double precision and stored in a \<open>Float32Array\<close>, and
  so are the colours.
\<close>

definition drawGPULine ::
  "number \<Rightarrow> number \<Rightarrow> number \<Rightarrow> number \<Rightarrow> polyair \<Rightarrow> polyair completion" where
  "drawGPULine x1 y1 x2 y2 s =
     (case gl s of
        None \<Rightarrow> Inr s
      | Some g \<Rightarrow>
          (case shaderProgram s of
             None \<Rightarrow> Inr s
           | Some p \<Rightarrow>
               (let g1 = gl_useProgram p g
                in case programInfo s of
                     None \<Rightarrow> Inl (TypeError, s\<lparr>gl := Some g1\<rparr>)
                   | Some info \<Rightarrow>
                       (let g2 = gl_uniform2f (loc_resolution info)
                                   (to_number (res_width (resolution s)))
                                   (to_number (res_height (resolution s))) g1;
                            centerX = js_div (to_number (res_width (resolution s))) (Num 2);
                            centerY = js_div (to_number (res_height (resolution s))) (Num 2);
                            vertices = Float32Array
                                         [js_add centerX x1, js_sub centerY y1,
                                          js_add centerX x2, js_sub centerY y2];
                            colors = Float32Array
                                       [Num (col_r (penColor s)), Num (col_g (penColor s)),
                                        Num (col_b (penColor s)), Num (col_a (penColor s)),
                                        Num (col_r (penColor s)), Num (col_g (penColor s)),
                                        Num (col_b (penColor s)), Num (col_a (penColor s))];
                            (positionBuffer, g3) = gl_createBuffer g2;
                            g4 = gl_bindBuffer positionBuffer g3;
                            g5 = gl_bufferData vertices g4;
                            g6 = gl_enableVertexAttribArray (loc_position info) g5;
                            g7 = gl_vertexAttribPointer (loc_position info) 2 g6;
                            (colorBuffer, g8) = gl_createBuffer g7;
                            g9 = gl_bindBuffer colorBuffer g8;
                            g10 = gl_bufferData colors g9;
                            g11 = gl_enableVertexAttribArray (loc_color info) g10;
                            g12 = gl_vertexAttribPointer (loc_color info) 4 g11;
                            g13 = gl_lineWidth (penWidth s) g12;
                            g14 = gl_drawArrays_LINES 0 2 g13;
                            g15 = gl_deleteBuffer positionBuffer g14;
                            g16 = gl_deleteBuffer colorBuffer g15
                        in Inr (s\<lparr>gl := Some g16\<rparr>)))))"

definition clearGPUCanvas :: "polyair \<Rightarrow> polyair" where
  "clearGPUCanvas s =
     (case gl s of
        None \<Rightarrow> s
      | Some g \<Rightarrow> s\<lparr>gl := Some (gl_clear (gl_clearColor 0 0 0 0 g))\<rparr>)"

subsection \<open>The older variant (src/unnamed/part_000)\<close>

text \<open>
  The second source file is an older copy of the same class. Its constructor leaves
  \<open>programInfo\<close> unassigned (\<open>undefined\<close>, which the model does not tell apart from
  \<open>null\<close>), its \<open>initWebGL\<close> has no \<open>try\<close>, its vertex stage has the uniform
  \<open>u_transform\<close>, and its \<open>setResolution\<close> and \<open>drawGPULine\<close> differ as written below.
  \<open>enableGPURendering\<close>, \<open>disableGPURendering\<close>, \<open>isGPUEnabled\<close>, \<open>setPenColor\<close>,
  \<open>setPenWidth\<close>, \<open>clearGPUCanvas\<close>, \<open>getResolutionWidth\<close> and \<open>getResolutionHeight\<close>
  have the bodies modelled above, but for calls of \<open>console.log\<close>, which the model
  leaves out of both variants. The \<open>style.display\<close> the older \<open>initWebGL\<close> sets on its
  canvas, which is never attached to the document, is left out as well.
\<close>

definition initShaders_old :: "gl_env \<Rightarrow> polyair \<Rightarrow> polyair completion" where
  "initShaders_old env s =
     (case gl s of
        None \<Rightarrow> Inl (TypeError, s)
      | Some g \<Rightarrow>
          (let vertexShader = compileShader env (VertexShader VS_transform);
               fragmentShader = compileShader env FragmentShader
           in case (vertexShader, fragmentShader) of
                (Some vs, Some fs) \<Rightarrow>
                  (let (p, g1) = gl_createProgram g;
                       g2 = gl_attachShader p vs g1;
                       g3 = gl_attachShader p fs g2;
                       g4 = gl_linkProgram (program_links env) p g3;
                       s1 = s\<lparr>gl := Some g4, shaderProgram := Some p\<rparr>
                   in if \<not> gl_LINK_STATUS p g4 then Inr s1
                      else (let g5 = gl_useProgram p g4
                            in Inr (s1\<lparr>gl := Some g5, programInfo := Some
                                 \<lparr>loc_position = gl_getAttribLocation p ''a_position'' g5,
                                  loc_color = gl_getAttribLocation p ''a_color'' g5,
                                  loc_resolution = gl_getUniformLocation p ''u_resolution'' g5,
                                  loc_transform = gl_getUniformLocation p ''u_transform'' g5\<rparr>\<rparr>)))
              | _ \<Rightarrow> Inr s))"

definition initWebGL_old :: "gl_env \<Rightarrow> polyair \<Rightarrow> polyair completion" where
  "initWebGL_old env s =
     (let c = \<lparr>cv_width = to_long (res_width (resolution s)),
               cv_height = to_long (res_height (resolution s))\<rparr>;
          s1 = s\<lparr>glCanvas := Some c\<rparr>;
          s2 = s1\<lparr>gl := (case getContext env WebGL2 c of
                           Some g \<Rightarrow> Some g
                         | None \<Rightarrow> getContext env WebGL1 c)\<rparr>
      in case gl s2 of
           None \<Rightarrow> Inr s2
         | Some _ \<Rightarrow>
             (case initShaders_old env s2 of
                Inl (e, s3) \<Rightarrow> Inl (e, s3)
              | Inr s3 \<Rightarrow>
                  (case gl s3 of
                     None \<Rightarrow> Inl (TypeError, s3)
                   | Some g \<Rightarrow>
                       Inr (s3\<lparr>gl := Some (gl_clear (gl_clearColor 0 0 0 0
                               (gl_blendFunc SRC_ALPHA ONE_MINUS_SRC_ALPHA
                                 (gl_enable_BLEND g))))\<rparr>))))"

definition new_PolyairExtension_old :: "gl_env \<Rightarrow> polyair completion" where
  "new_PolyairExtension_old env =
     initWebGL_old env
       \<lparr>glCanvas = None, gl = None, resolution = Res 854 480, targetResolution = ''480p'',
        gpuSprites = {}, shaderProgram = None, programInfo = None,
        penColor = \<lparr>col_r = 1, col_g = 1, col_b = 1, col_a = 1\<rparr>, penWidth = 1\<rparr>"

text \<open>No guard stands before the canvas and the context are used.\<close>

definition setResolution_old :: "string \<Rightarrow> polyair \<Rightarrow> polyair completion" where
  "setResolution_old quality s =
     (let s1 = s\<lparr>targetResolution := quality\<rparr>;
          s2 = s1\<lparr>resolution := resolution_or_1080p quality\<rparr>
      in case glCanvas s2 of
           None \<Rightarrow> Inl (TypeError, s2)
         | Some c \<Rightarrow>
             (let s3 = assign_canvas_height (to_long (res_height (resolution s2)))
                         (assign_canvas_width (to_long (res_width (resolution s2))) s2)
              in case gl s3 of
                   None \<Rightarrow> Inl (TypeError, s3)
                 | Some g \<Rightarrow>
                     Inr (s3\<lparr>gl := Some (gl_clear (gl_clearColor 0 0 0 0
                            (gl_viewport 0 0 (to_long (res_width (resolution s3)))
                               (to_long (res_height (resolution s3))) g)))\<rparr>)))"

text \<open>
  The same as \<open>drawGPULine\<close>, with one more call: the identity matrix is stored in
  \<open>u_transform\<close> after the resolution.
\<close>

definition drawGPULine_old ::
  "number \<Rightarrow> number \<Rightarrow> number \<Rightarrow> number \<Rightarrow> polyair \<Rightarrow> polyair completion" where
  "drawGPULine_old x1 y1 x2 y2 s =
     (case gl s of
        None \<Rightarrow> Inr s
      | Some g \<Rightarrow>
          (case shaderProgram s of
             None \<Rightarrow> Inr s
           | Some p \<Rightarrow>
               (let g1 = gl_useProgram p g
                in case programInfo s of
                     None \<Rightarrow> Inl (TypeError, s\<lparr>gl := Some g1\<rparr>)
                   | Some info \<Rightarrow>
                       (let g2 = gl_uniform2f (loc_resolution info)
                                   (to_number (res_width (resolution s)))
                                   (to_number (res_height (resolution s))) g1;
                            g2' = gl_uniformMatrix3fv (loc_transform info)
                                    [1, 0, 0, 0, 1, 0, 0, 0, 1] g2;
                            centerX = js_div (to_number (res_width (resolution s))) (Num 2);
                            centerY = js_div (to_number (res_height (resolution s))) (Num 2);
                            vertices = Float32Array
                                         [js_add centerX x1, js_sub centerY y1,
                                          js_add centerX x2, js_sub centerY y2];
                            colors = Float32Array
                                       [Num (col_r (penColor s)), Num (col_g (penColor s)),
                                        Num (col_b (penColor s)), Num (col_a (penColor s)),
                                        Num (col_r (penColor s)), Num (col_g (penColor s)),
                                        Num (col_b (penColor s)), Num (col_a (penColor s))];
                            (positionBuffer, g3) = gl_createBuffer g2';
                            g4 = gl_bindBuffer positionBuffer g3;
                            g5 = gl_bufferData vertices g4;
                            g6 = gl_enableVertexAttribArray (loc_position info) g5;
                            g7 = gl_vertexAttribPointer (loc_position info) 2 g6;
                            (colorBuffer, g8) = gl_createBuffer g7;
                            g9 = gl_bindBuffer colorBuffer g8;
                            g10 = gl_bufferData colors g9;
                            g11 = gl_enableVertexAttribArray (loc_color info) g10;
                            g12 = gl_vertexAttribPointer (loc_color info) 4 g11;
                            g13 = gl_lineWidth (penWidth s) g12;
                            g14 = gl_drawArrays_LINES 0 2 g13;
                            g15 = gl_deleteBuffer positionBuffer g14;
                            g16 = gl_deleteBuffer colorBuffer g15
                        in Inr (s\<lparr>gl := Some g16\<rparr>)))))"

section \<open>Sequences of block calls\<close>

text \<open>
  The host calls one block after the other. A block that throws ends that call only:
  the instance stays as the throw left it and takes the next call.
\<close>

datatype block =
    EnableGPURendering string
  | DisableGPURendering string
  | IsGPUEnabled string
  | SetResolution string
  | GetResolutionWidth
  | GetResolutionHeight
  | SetPenColor real real real
  | SetPenWidth real
  | DrawGPULine number number number number
  | ClearGPUCanvas

datatype answer = Returned | Reported_bool bool | Reported_size "nat option" | Thrown js_error

definition finish :: "polyair completion \<Rightarrow> answer \<times> polyair" where
  "finish c = (case c of Inl (e, s) \<Rightarrow> (Thrown e, s) | Inr s \<Rightarrow> (Returned, s))"

fun call_block :: "block \<Rightarrow> polyair \<Rightarrow> answer \<times> polyair" where
  "call_block (EnableGPURendering t) s = (Returned, enableGPURendering t s)"
| "call_block (DisableGPURendering t) s = (Returned, disableGPURendering t s)"
| "call_block (IsGPUEnabled t) s = (Reported_bool (isGPUEnabled t s), s)"
| "call_block (SetResolution q) s = finish (setResolution q s)"
| "call_block GetResolutionWidth s = (Reported_size (getResolutionWidth s), s)"
| "call_block GetResolutionHeight s = (Reported_size (getResolutionHeight s), s)"
| "call_block (SetPenColor R G B) s = (Returned, setPenColor R G B s)"
| "call_block (SetPenWidth w) s = (Returned, setPenWidth w s)"
| "call_block (DrawGPULine x1 y1 x2 y2) s = finish (drawGPULine x1 y1 x2 y2 s)"
| "call_block ClearGPUCanvas s = (Returned, clearGPUCanvas s)"

fun call_block_old :: "block \<Rightarrow> polyair \<Rightarrow> answer \<times> polyair" where
  "call_block_old (SetResolution q) s = finish (setResolution_old q s)"
| "call_block_old (DrawGPULine x1 y1 x2 y2) s = finish (drawGPULine_old x1 y1 x2 y2 s)"
| "call_block_old b s = call_block b s"

fun call_blocks :: "block list \<Rightarrow> polyair \<Rightarrow> answer list \<times> polyair" where
  "call_blocks [] s = ([], s)"
| "call_blocks (b # bs) s =
     (case call_block b s of (a, s') \<Rightarrow>
        (case call_blocks bs s' of (as, s'') \<Rightarrow> (a # as, s'')))"

fun call_blocks_old :: "block list \<Rightarrow> polyair \<Rightarrow> answer list \<times> polyair" where
  "call_blocks_old [] s = ([], s)"
| "call_blocks_old (b # bs) s =
     (case call_block_old b s of (a, s') \<Rightarrow>
        (case call_blocks_old bs s' of (as, s'') \<Rightarrow> (a # as, s'')))"

section \<open>Notions the properties are stated with\<close>

text \<open>
  \<open>clamp\<close> follows the words of the specification (``clamped to [0, 255]''), not the
  code, which computes \<open>Math.max(0, Math.min(255, x))\<close>.
\<close>

definition clamp :: "real \<Rightarrow> real \<Rightarrow> real \<Rightarrow> real" where
  "clamp x lo hi = (if x < lo then lo else if hi < x then hi else x)"

text \<open>What \<open>initShaders\<close> stores in \<open>programInfo\<close> once the program \<open>p\<close> has linked.\<close>

definition info_plain :: "nat \<Rightarrow> program_info" where
  "info_plain p =
     \<lparr>loc_position = 0, loc_color = 1,
      loc_resolution = Some (UniformLocation p ''u_resolution''), loc_transform = None\<rparr>"

definition info_transform :: "nat \<Rightarrow> program_info" where
  "info_transform p =
     \<lparr>loc_position = 0, loc_color = 1,
      loc_resolution = Some (UniformLocation p ''u_resolution''),
      loc_transform = Some (UniformLocation p ''u_transform'')\<rparr>"

text \<open>
  The Ready state of \<open>polyair-extension.js\<close>: a context was obtained, and the program
  compiled, linked and had its locations resolved.
\<close>

definition ready :: "polyair \<Rightarrow> bool" where
  "ready s =
     (case gl s of
        None \<Rightarrow> False
      | Some g \<Rightarrow>
          (case shaderProgram s of
             None \<Rightarrow> False
           | Some p \<Rightarrow>
               (case programs g p of
                  None \<Rightarrow> False
                | Some pr \<Rightarrow>
                    linked pr \<and> vertex_stage pr = Some VS_plain
                    \<and> programInfo s = Some (info_plain p))))"

text \<open>Browsers to run the extension in.\<close>

definition browser_ok :: gl_env where
  "browser_ok =
     \<lparr>webgl2_available = True, webgl1_available = True, vertex_compiles = True,
      fragment_compiles = True, program_links = True\<rparr>"

definition browser_without_webgl :: gl_env where
  "browser_without_webgl =
     \<lparr>webgl2_available = False, webgl1_available = False, vertex_compiles = True,
      fragment_compiles = True, program_links = True\<rparr>"

definition browser_link_fails :: gl_env where
  "browser_link_fails =
     \<lparr>webgl2_available = True, webgl1_available = True, vertex_compiles = True,
      fragment_compiles = True, program_links = False\<rparr>"

definition browser_compile_fails :: gl_env where
  "browser_compile_fails =
     \<lparr>webgl2_available = False, webgl1_available = True, vertex_compiles = True,
      fragment_compiles = False, program_links = True\<rparr>"

section \<open>Properties\<close>

subsection \<open>Numbers\<close>

lemma nsub_finite [simp]: "nsub (Num x) (Num y) = Num (x - y)"
  by (simp add: nsub_def)

text \<open>\<open>binade\<close> finds the binade a magnitude lies in.\<close>

lemma binade_eq:
  "emin \<le> e \<Longrightarrow> e \<le> emin + int n \<Longrightarrow> 2 powi e \<le> a \<Longrightarrow> a < 2 powi (e + 1) \<Longrightarrow>
   binade emin n a = e"
proof (induction n)
  case 0
  then show ?case by simp
next
  case (Suc n)
  show ?case
  proof (cases "e = emin + int (Suc n)")
    case True
    with Suc.prems show ?thesis by simp
  next
    case False
    with Suc.prems have le: "e + 1 \<le> emin + int (Suc n)" by simp
    have "(2::real) powi (e + 1) \<le> 2 powi (emin + int (Suc n))"
      by (rule power_int_increasing [OF le]) simp
    with Suc.prems have "\<not> 2 powi (emin + int (Suc n)) \<le> a" by simp
    moreover have "binade emin n a = e"
      using Suc.IH Suc.prems False by simp
    ultimately show ?thesis by simp
  qed
qed

lemma binade_small:
  "a < 2 powi (emin + 1) \<Longrightarrow> binade emin n a = emin"
proof (induction n)
  case 0
  then show ?case by simp
next
  case (Suc n)
  have "(2::real) powi (emin + 1) \<le> 2 powi (emin + int (Suc n))"
    by (rule power_int_increasing) simp_all
  with Suc show ?case by simp
qed

lemma binade_top:
  "0 < n \<Longrightarrow> 2 powi (emin + int n) \<le> a \<Longrightarrow> binade emin n a = emin + int n"
  by (cases n) simp_all

lemma binade_range: "emin \<le> binade emin n a \<and> binade emin n a \<le> emin + int n"
  by (induction n) auto

lemma binade_lower: "2 powi emin \<le> a \<Longrightarrow> 2 powi (binade emin n a) \<le> a"
  by (induction n) auto

lemma round_half_even_int [simp]: "round_half_even (of_int m) = m"
  by (simp add: round_half_even_def)

lemma powi_nat: "0 \<le> j \<Longrightarrow> (2::real) powi j = of_int (2 ^ nat j)"
  by (simp add: power_int_def)

text \<open>
  A number is representable when its magnitude is a multiple \<open>m * 2 powi k\<close> of a power
  of two, with a significand \<open>m\<close> of at most \<open>p\<close> bits and an exponent \<open>k\<close> of the
  format. Rounding leaves it as it is.
\<close>

lemma ieee_round_representable:
  assumes x: "\<bar>x\<bar> = of_int m * 2 powi k" and m: "0 \<le> m" "m < 2 ^ p"
    and k: "emin - int p + 1 \<le> k" "k + int p \<le> emin + int n + 1"
  shows "ieee_round p emin n x = Num x"
proof -
  define a where "a = \<bar>x\<bar>"
  define e where "e = binade emin n a"
  have a: "a = of_int m * 2 powi k"
    unfolding a_def by (rule x)
  have "of_int m < (2::real) ^ p"
    using m(2) by (metis of_int_less_iff of_int_numeral of_int_power)
  then have "a < 2 ^ p * 2 powi k"
    unfolding a by (simp add: mult_strict_right_mono)
  also have "\<dots> = 2 powi (k + int p)"
    by (simp add: power_int_add)
  finally have a_less: "a < 2 powi (k + int p)" .
  have "(2::real) powi (k + int p) \<le> 2 powi (emin + int n + 1)"
    by (rule power_int_increasing [OF k(2)]) simp
  with a_less have top: "a < 2 powi (emin + int n + 1)"
    by simp
  have e_le: "e \<le> k + int p - 1"
  proof (cases "2 powi emin \<le> a")
    case True
    from binade_lower [OF this] have "2 powi e \<le> a"
      by (simp add: e_def)
    with a_less have "(2::real) powi e < 2 powi (k + int p)"
      by simp
    moreover have "(2::real) powi (k + int p) \<le> 2 powi e" if "k + int p \<le> e"
      by (rule power_int_increasing [OF that]) simp
    ultimately have "e < k + int p"
      by fastforce
    then show ?thesis by simp
  next
    case False
    then have "a < 2 powi (emin + 1)"
      using power_int_increasing [of emin "emin + 1" "2::real"] by simp
    from binade_small [OF this] have "e = emin"
      by (simp add: e_def)
    with k(1) show ?thesis by simp
  qed
  define j where "j = k - (e - int p + 1)"
  have j: "0 \<le> j"
    unfolding j_def using e_le by simp
  have "a / 2 powi (e - int p + 1) = of_int m * 2 powi j"
    unfolding a j_def by (simp add: power_int_diff)
  also have "\<dots> = of_int (m * 2 ^ nat j)"
    by (simp add: powi_nat [OF j])
  finally have q: "a / 2 powi (e - int p + 1) = of_int (m * 2 ^ nat j)" .
  then have r: "of_int (m * 2 ^ nat j) * 2 powi (e - int p + 1) = a"
    by (simp add: field_simps)
  from top have big: "\<not> 2 powi (emin + int n + 1) \<le> a"
    by simp
  have "ieee_round p emin n x = Num (if x < 0 then - a else a)"
    unfolding ieee_round_def Let_def a_def [symmetric] e_def [symmetric] q
    by (simp only: round_half_even_int r big if_False)
  then show ?thesis
    by (simp add: a_def)
qed

text \<open>
  So the integers and the halves of integers below \<open>2 ^ 24\<close> in magnitude are single
  precision numbers, and those below \<open>2 ^ 53\<close> are double precision numbers.
\<close>

lemma float32_of_int: "\<bar>i\<bar> < 2 ^ 24 \<Longrightarrow> float32 (of_int i) = Num (of_int i)"
  unfolding float32_def
  by (rule ieee_round_representable [where m = "\<bar>i\<bar>" and k = 0]) simp_all

lemma float64_of_int: "\<bar>i\<bar> < 2 ^ 53 \<Longrightarrow> float64 (of_int i) = Num (of_int i)"
  unfolding float64_def
  by (rule ieee_round_representable [where m = "\<bar>i\<bar>" and k = 0]) simp_all

lemma float32_half: "\<bar>i\<bar> < 2 ^ 24 \<Longrightarrow> float32 (of_int i / 2) = Num (of_int i / 2)"
  unfolding float32_def
  by (rule ieee_round_representable [where m = "\<bar>i\<bar>" and k = "- 1"]) simp_all

lemma float64_half: "\<bar>i\<bar> < 2 ^ 53 \<Longrightarrow> float64 (of_int i / 2) = Num (of_int i / 2)"
  unfolding float64_def
  by (rule ieee_round_representable [where m = "\<bar>i\<bar>" and k = "- 1"]) simp_all

text \<open>
  Other numbers are rounded: \<open>2 ^ 24 + 1\<close> lies halfway between two single precision
  numbers and goes to the even one, and a magnitude past the largest single precision
  number becomes an infinity.
\<close>

lemma float32_16777217: "float32 16777217 = Num 16777216"
proof -
  have b: "binade (- 126) 253 \<bar>16777217\<bar> = 24"
    by (rule binade_eq) simp_all
  show ?thesis
    unfolding float32_def ieee_round_def Let_def b by (simp add: round_half_even_def)
qed

lemma float32_overflow: "float32 (- (10 ^ 39)) = NegInf"
proof -
  have b: "binade (- 126) 253 \<bar>- (10 ^ 39)\<bar> = 127"
    using binade_top [of 253 "- 126" "\<bar>- (10 ^ 39)\<bar>"] by simp
  show ?thesis
    unfolding float32_def ieee_round_def Let_def b by (simp add: round_half_even_def infinity_def)
qed

text \<open>
  The vertex coordinate \<open>drawGPULine\<close> stores for an integer coordinate \<open>i\<close> of an end
  point is exact as long as it stays below \<open>2 ^ 24\<close> in magnitude.
\<close>

lemma vertex_x_exact:
  assumes "\<bar>int w + 2 * i\<bar> < 2 ^ 24" and "int w < 2 ^ 53"
  shows "fround (js_add (js_div (Num (real w)) (Num 2)) (Num (of_int i)))
    = Num (real w / 2 + of_int i)"
proof -
  have c: "float64 (real w / 2) = Num (real w / 2)"
    using float64_half [of "int w"] assms(2) by simp
  have s: "real w / 2 + of_int i = of_int (int w + 2 * i) / 2"
    by simp
  have "\<bar>int w + 2 * i\<bar> < 2 ^ 53"
    using assms(1) by simp
  from float64_half [OF this] float32_half [OF assms(1)] show ?thesis
    unfolding js_add_def js_div_def s [symmetric] by (simp add: c)
qed

lemma vertex_y_exact:
  assumes "\<bar>int h - 2 * i\<bar> < 2 ^ 24" and "int h < 2 ^ 53"
  shows "fround (js_sub (js_div (Num (real h)) (Num 2)) (Num (of_int i)))
    = Num (real h / 2 - of_int i)"
proof -
  have c: "float64 (real h / 2) = Num (real h / 2)"
    using float64_half [of "int h"] assms(2) by simp
  have s: "real h / 2 - of_int i = of_int (int h - 2 * i) / 2"
    by simp
  have "\<bar>int h - 2 * i\<bar> < 2 ^ 53"
    using assms(1) by simp
  from float64_half [OF this] float32_half [OF assms(1)] show ?thesis
    unfolding js_sub_def js_div_def nsub_def s [symmetric] by (simp add: c)
qed

subsection \<open>Steps of the graphics context\<close>

lemma line_segments_2 [simp]: "line_segments f 2 = [(f, f + 1)]"
  by (simp add: numeral_2_eq_2)

lemma pad4_4 [simp]: "pad4 [a, b, c, d] = [a, b, c, d]"
  by (simp add: pad4_def)

lemma pad4_2 [simp]: "pad4 [a, b] = [a, b, Num 0, Num 1]"
  by (simp add: pad4_def)

lemma finish_simps [simp]:
  "finish (Inr s) = (Returned, s)"
  "finish (Inl (e, s)) = (Thrown e, s)"
  by (simp_all add: finish_def)

lemma snd_finish [simp]: "snd (finish c) = state_of c"
  by (simp add: finish_def state_of_def split: sum.splits prod.splits)

lemma attribute_value_enabled:
  "attribs g i = arr \<Longrightarrow> enabled arr \<Longrightarrow> source arr = Some b \<Longrightarrow> buffers g b = Some data \<Longrightarrow>
   attribute_value g i k =
     (if (k + 1) * components arr \<le> length data
      then Some (pad4 (take (components arr) (drop (k * components arr) data))) else None)"
  by (auto simp add: attribute_value_def)

text \<open>
  The draw call of \<open>drawGPULine\<close>: two vertices, two enabled arrays, one segment.
\<close>

lemma drawArrays_one:
  assumes "current_program g = Some p" "programs g p = Some pr" "vertex_stage pr = Some src"
    "attribs g 0 = a0" "enabled a0" "source a0 = Some b0" "components a0 = 2"
    "buffers g b0 = Some [px0, py0, px1, py1]"
    "attribs g 1 = a1" "enabled a1" "source a1 = Some b1" "components a1 = 4"
    "buffers g b1 = Some [r0, g0, bl0, al0, r1, g1, bl1, al1]"
  shows "gl_drawArrays_LINES 0 2 g =
     g\<lparr>drawing_buffer := (drawing_buffer g)\<lparr>strokes := strokes (drawing_buffer g) @
        [\<lparr>pixel0 = (px0, py0), pixel1 = (px1, py1),
          clip0 = vertex_main src pr (px0, py0), clip1 = vertex_main src pr (px1, py1),
          color0 = [r0, g0, bl0, al0], color1 = [r1, g1, bl1, al1],
          stroke_width = line_width g\<rparr>]\<rparr>\<rparr>"
proof -
  have v: "attribute_value g 0 0 = Some [px0, py0, Num 0, Num 1]"
    "attribute_value g 0 (Suc 0) = Some [px1, py1, Num 0, Num 1]"
    "attribute_value g (Suc 0) 0 = Some [r0, g0, bl0, al0]"
    "attribute_value g (Suc 0) (Suc 0) = Some [r1, g1, bl1, al1]"
    using assms by (simp_all add: attribute_value_enabled [where arr = a0 and b = b0]
        attribute_value_enabled [where arr = a1 and b = b1])
  show ?thesis
    using assms(1-3) v by (simp add: gl_drawArrays_LINES_def shade_segment_def)
qed

lemmas gl_steps = gl_useProgram_def gl_LINK_STATUS_def gl_uniform2f_def gl_uniformMatrix3fv_def
  gl_createBuffer_def gl_bindBuffer_def gl_bufferData_def gl_enableVertexAttribArray_def
  gl_vertexAttribPointer_def gl_lineWidth_def gl_deleteBuffer_def

text \<open>
  What \<open>drawGPULine\<close> does to the context once the program is linked and its
  locations are stored, in both variants.
\<close>

lemma drawGPULine_ready:
  assumes "gl s = Some g" "shaderProgram s = Some p" "programs g p = Some pr" "linked pr"
    "vertex_stage pr = Some VS_plain" "programInfo s = Some (info_plain p)" "0 < penWidth s"
  shows "drawGPULine x1 y1 x2 y2 s = Inr (s\<lparr>gl := Some
     (g\<lparr>current_program := Some p,
        programs := (programs g)(p \<mapsto> pr\<lparr>u_resolution :=
           (to_number (res_width (resolution s)), to_number (res_height (resolution s)))\<rparr>),
        buffers := (buffers g)(next_buffer g := None, Suc (next_buffer g) := None),
        next_buffer := Suc (Suc (next_buffer g)),
        array_buffer := None,
        attribs := (attribs g)
          (0 := (attribs g 0)\<lparr>enabled := True, source := Some (next_buffer g), components := 2\<rparr>,
           1 := (attribs g 1)\<lparr>enabled := True, source := Some (Suc (next_buffer g)), components := 4\<rparr>),
        line_width := penWidth s,
        drawing_buffer := (drawing_buffer g)\<lparr>strokes := strokes (drawing_buffer g) @
          [\<lparr>pixel0 = (fround (js_add (js_div (to_number (res_width (resolution s))) (Num 2)) x1),
                      fround (js_sub (js_div (to_number (res_height (resolution s))) (Num 2)) y1)),
            pixel1 = (fround (js_add (js_div (to_number (res_width (resolution s))) (Num 2)) x2),
                      fround (js_sub (js_div (to_number (res_height (resolution s))) (Num 2)) y2)),
            clip0 = clip_space (to_number (res_width (resolution s)), to_number (res_height (resolution s)))
                     (fround (js_add (js_div (to_number (res_width (resolution s))) (Num 2)) x1),
                      fround (js_sub (js_div (to_number (res_height (resolution s))) (Num 2)) y1)),
            clip1 = clip_space (to_number (res_width (resolution s)), to_number (res_height (resolution s)))
                     (fround (js_add (js_div (to_number (res_width (resolution s))) (Num 2)) x2),
                      fround (js_sub (js_div (to_number (res_height (resolution s))) (Num 2)) y2)),
            color0 = [float32 (col_r (penColor s)), float32 (col_g (penColor s)),
                      float32 (col_b (penColor s)), float32 (col_a (penColor s))],
            color1 = [float32 (col_r (penColor s)), float32 (col_g (penColor s)),
                      float32 (col_b (penColor s)), float32 (col_a (penColor s))],
            stroke_width = penWidth s\<rparr>]\<rparr>\<rparr>)\<rparr>)"
  using assms unfolding drawGPULine_def Let_def case_prod_beta info_plain_def Float32Array_def
  by (simp add: gl_steps drawArrays_one del: clip_space.simps)

lemma drawGPULine_old_ready:
  assumes "gl s = Some g" "shaderProgram s = Some p" "programs g p = Some pr" "linked pr"
    "vertex_stage pr = Some VS_transform" "programInfo s = Some (info_transform p)" "0 < penWidth s"
  shows "drawGPULine_old x1 y1 x2 y2 s = Inr (s\<lparr>gl := Some
     (g\<lparr>current_program := Some p,
        programs := (programs g)(p \<mapsto> pr\<lparr>u_resolution :=
           (to_number (res_width (resolution s)), to_number (res_height (resolution s))),
           u_transform := ((1, 0, 0), (0, 1, 0), (0, 0, 1))\<rparr>),
        buffers := (buffers g)(next_buffer g := None, Suc (next_buffer g) := None),
        next_buffer := Suc (Suc (next_buffer g)),
        array_buffer := None,
        attribs := (attribs g)
          (0 := (attribs g 0)\<lparr>enabled := True, source := Some (next_buffer g), components := 2\<rparr>,
           1 := (attribs g 1)\<lparr>enabled := True, source := Some (Suc (next_buffer g)), components := 4\<rparr>),
        line_width := penWidth s,
        drawing_buffer := (drawing_buffer g)\<lparr>strokes := strokes (drawing_buffer g) @
          [\<lparr>pixel0 = (fround (js_add (js_div (to_number (res_width (resolution s))) (Num 2)) x1),
                      fround (js_sub (js_div (to_number (res_height (resolution s))) (Num 2)) y1)),
            pixel1 = (fround (js_add (js_div (to_number (res_width (resolution s))) (Num 2)) x2),
                      fround (js_sub (js_div (to_number (res_height (resolution s))) (Num 2)) y2)),
            clip0 = clip_space (to_number (res_width (resolution s)), to_number (res_height (resolution s)))
                     (apply_transform ((1, 0, 0), (0, 1, 0), (0, 0, 1))
                     (fround (js_add (js_div (to_number (res_width (resolution s))) (Num 2)) x1),
                      fround (js_sub (js_div (to_number (res_height (resolution s))) (Num 2)) y1))),
            clip1 = clip_space (to_number (res_width (resolution s)), to_number (res_height (resolution s)))
                     (apply_transform ((1, 0, 0), (0, 1, 0), (0, 0, 1))
                     (fround (js_add (js_div (to_number (res_width (resolution s))) (Num 2)) x2),
                      fround (js_sub (js_div (to_number (res_height (resolution s))) (Num 2)) y2))),
            color0 = [float32 (col_r (penColor s)), float32 (col_g (penColor s)),
                      float32 (col_b (penColor s)), float32 (col_a (penColor s))],
            color1 = [float32 (col_r (penColor s)), float32 (col_g (penColor s)),
                      float32 (col_b (penColor s)), float32 (col_a (penColor s))],
            stroke_width = penWidth s\<rparr>]\<rparr>\<rparr>)\<rparr>)"
  using assms unfolding drawGPULine_old_def Let_def case_prod_beta info_transform_def
    Float32Array_def
  by (simp add: gl_steps drawArrays_one del: clip_space.simps apply_transform.simps)

lemma drawGPULine_ready_returns:
  assumes "ready s" and "0 < penWidth s"
  shows "\<exists>g'. drawGPULine x1 y1 x2 y2 s = Inr (s\<lparr>gl := Some g'\<rparr>)"
proof -
  from assms(1) obtain g p pr where p: "gl s = Some g" "shaderProgram s = Some p"
    "programs g p = Some pr" "linked pr" "vertex_stage pr = Some VS_plain"
    "programInfo s = Some (info_plain p)"
    by (auto simp add: ready_def split: option.splits)
  from drawGPULine_ready [OF p assms(2), of x1 y1 x2 y2] show ?thesis
    by blast
qed

subsection \<open>Construction\<close>

lemma new_ready_state:
  "new_PolyairExtension browser_ok =
     \<lparr>glCanvas = Some \<lparr>cv_width = 854, cv_height = 480\<rparr>,
      gl = Some ((fresh_context WebGL2 \<lparr>cv_width = 854, cv_height = 480\<rparr>)
             \<lparr>blend := True, blend_func := (SRC_ALPHA, ONE_MINUS_SRC_ALPHA),
              programs := [0 \<mapsto> \<lparr>vertex_stage = Some VS_plain, fragment_stage = True, linked = True,
                   u_resolution = (Num 0, Num 0), u_transform = zero_mat3\<rparr>],
              next_program := 1\<rparr>),
      resolution = Res 854 480, targetResolution = ''480p'', gpuSprites = {},
      shaderProgram = Some 0, programInfo = Some (info_plain 0),
      penColor = \<lparr>col_r = 1, col_g = 1, col_b = 1, col_a = 1\<rparr>, penWidth = 1\<rparr>"
  unfolding new_PolyairExtension_def initWebGL_def initShaders_def Let_def case_prod_beta
  by (simp add: browser_ok_def getContext_def compileShader_def fresh_context_def gl_createProgram_def
      gl_attachShader_def gl_linkProgram_def gl_LINK_STATUS_def gl_getAttribLocation_def
      gl_getUniformLocation_def gl_enable_BLEND_def gl_blendFunc_def gl_clearColor_def gl_clear_def
      to_long_def info_plain_def transparent_def)

lemma new_ready: "ready (new_PolyairExtension browser_ok)"
  by (simp add: new_ready_state ready_def)

lemma new_without_webgl:
  "new_PolyairExtension browser_without_webgl =
     \<lparr>glCanvas = Some \<lparr>cv_width = 854, cv_height = 480\<rparr>, gl = None,
      resolution = Res 854 480, targetResolution = ''480p'', gpuSprites = {},
      shaderProgram = None, programInfo = None,
      penColor = \<lparr>col_r = 1, col_g = 1, col_b = 1, col_a = 1\<rparr>, penWidth = 1\<rparr>"
  unfolding new_PolyairExtension_def initWebGL_def Let_def
  by (simp add: browser_without_webgl_def getContext_def to_long_def)

lemma new_old_without_webgl:
  "new_PolyairExtension_old browser_without_webgl
     = Inr (new_PolyairExtension browser_without_webgl)"
  unfolding new_PolyairExtension_old_def initWebGL_old_def new_without_webgl Let_def
  by (simp add: browser_without_webgl_def getContext_def to_long_def)

lemma new_link_failure:
  "new_PolyairExtension browser_link_fails =
     \<lparr>glCanvas = Some \<lparr>cv_width = 854, cv_height = 480\<rparr>,
      gl = Some ((fresh_context WebGL2 \<lparr>cv_width = 854, cv_height = 480\<rparr>)
             \<lparr>blend := True, blend_func := (SRC_ALPHA, ONE_MINUS_SRC_ALPHA),
              programs := [0 \<mapsto> \<lparr>vertex_stage = Some VS_plain, fragment_stage = True, linked = False,
                   u_resolution = (Num 0, Num 0), u_transform = zero_mat3\<rparr>],
              next_program := 1\<rparr>),
      resolution = Res 854 480, targetResolution = ''480p'', gpuSprites = {},
      shaderProgram = Some 0, programInfo = None,
      penColor = \<lparr>col_r = 1, col_g = 1, col_b = 1, col_a = 1\<rparr>, penWidth = 1\<rparr>"
  unfolding new_PolyairExtension_def initWebGL_def initShaders_def Let_def case_prod_beta
  by (simp add: browser_link_fails_def getContext_def compileShader_def fresh_context_def
      gl_createProgram_def gl_attachShader_def gl_linkProgram_def gl_LINK_STATUS_def
      gl_enable_BLEND_def gl_blendFunc_def gl_clearColor_def gl_clear_def to_long_def
      transparent_def)

lemma initShaders_keeps:
  "gpuSprites (state_of (initShaders env s)) = gpuSprites s
   \<and> resolution (state_of (initShaders env s)) = resolution s
   \<and> penColor (state_of (initShaders env s)) = penColor s
   \<and> penWidth (state_of (initShaders env s)) = penWidth s
   \<and> targetResolution (state_of (initShaders env s)) = targetResolution s
   \<and> glCanvas (state_of (initShaders env s)) = glCanvas s"
  unfolding initShaders_def Let_def case_prod_beta
  by (simp add: state_of_def split: option.splits)

lemma initWebGL_keeps:
  "gpuSprites (initWebGL env s) = gpuSprites s
   \<and> resolution (initWebGL env s) = resolution s
   \<and> penColor (initWebGL env s) = penColor s
   \<and> penWidth (initWebGL env s) = penWidth s
   \<and> targetResolution (initWebGL env s) = targetResolution s"
proof -
  define s2 where "s2 = s\<lparr>glCanvas := Some \<lparr>cv_width = to_long (res_width (resolution s)),
             cv_height = to_long (res_height (resolution s))\<rparr>,
       gl := (case getContext env WebGL2 \<lparr>cv_width = to_long (res_width (resolution s)),
             cv_height = to_long (res_height (resolution s))\<rparr> of Some g \<Rightarrow> Some g
          | None \<Rightarrow> getContext env WebGL1 \<lparr>cv_width = to_long (res_width (resolution s)),
             cv_height = to_long (res_height (resolution s))\<rparr>)\<rparr>"
  have w: "initWebGL env s =
     (case gl s2 of None \<Rightarrow> s2
      | Some _ \<Rightarrow> (case initShaders env s2 of Inl (e, s3) \<Rightarrow> s3
           | Inr s3 \<Rightarrow> (case gl s3 of None \<Rightarrow> s3
               | Some g \<Rightarrow> s3\<lparr>gl := Some (gl_clear (gl_clearColor 0 0 0 0
                               (gl_blendFunc SRC_ALPHA ONE_MINUS_SRC_ALPHA
                                 (gl_enable_BLEND g))))\<rparr>)))"
    unfolding initWebGL_def Let_def s2_def by simp
  have k: "gpuSprites s2 = gpuSprites s" "resolution s2 = resolution s" "penColor s2 = penColor s"
    "penWidth s2 = penWidth s" "targetResolution s2 = targetResolution s"
    by (simp_all add: s2_def)
  show ?thesis
    unfolding w using initShaders_keeps [of env s2] k
    by (cases "gl s2"; cases "initShaders env s2")
       (auto simp add: state_of_def split: option.splits)
qed

lemma new_gpuSprites: "gpuSprites (new_PolyairExtension env) = {}"
  by (simp add: new_PolyairExtension_def initWebGL_keeps)

lemma new_resolution: "resolution (new_PolyairExtension env) = Res 854 480"
  by (simp add: new_PolyairExtension_def initWebGL_keeps)

lemma new_penWidth: "penWidth (new_PolyairExtension env) = 1"
  by (simp add: new_PolyairExtension_def initWebGL_keeps)

lemma new_context:
  "(gl (new_PolyairExtension env) = None) = (\<not> webgl2_available env \<and> \<not> webgl1_available env)"
proof -
  obtain w2 w1 vc fc pl where env: "env = \<lparr>webgl2_available = w2, webgl1_available = w1,
     vertex_compiles = vc, fragment_compiles = fc, program_links = pl\<rparr>"
    by (cases env) simp
  show ?thesis
    unfolding env new_PolyairExtension_def initWebGL_def initShaders_def Let_def case_prod_beta
    by (cases w2; cases w1; cases vc; cases fc; cases pl)
       (simp_all add: getContext_def compileShader_def gl_createProgram_def
         gl_attachShader_def gl_linkProgram_def gl_LINK_STATUS_def)
qed

lemma new_compile_failure:
  "\<not> vertex_compiles env \<or> \<not> fragment_compiles env \<Longrightarrow>
   shaderProgram (new_PolyairExtension env) = None"
proof -
  obtain w2 w1 vc fc pl where env: "env = \<lparr>webgl2_available = w2, webgl1_available = w1,
     vertex_compiles = vc, fragment_compiles = fc, program_links = pl\<rparr>"
    by (cases env) simp
  show "\<not> vertex_compiles env \<or> \<not> fragment_compiles env \<Longrightarrow> ?thesis"
    unfolding env new_PolyairExtension_def initWebGL_def initShaders_def Let_def case_prod_beta
    by (cases w2; cases w1; cases vc; cases fc; cases pl)
       (simp_all add: getContext_def compileShader_def)
qed

lemma new_ready_general:
  "webgl2_available env \<or> webgl1_available env \<Longrightarrow> vertex_compiles env \<Longrightarrow>
   fragment_compiles env \<Longrightarrow> program_links env \<Longrightarrow> ready (new_PolyairExtension env)"
proof -
  obtain w2 w1 vc fc pl where env: "env = \<lparr>webgl2_available = w2, webgl1_available = w1,
     vertex_compiles = vc, fragment_compiles = fc, program_links = pl\<rparr>"
    by (cases env) simp
  show "webgl2_available env \<or> webgl1_available env \<Longrightarrow> vertex_compiles env \<Longrightarrow>
   fragment_compiles env \<Longrightarrow> program_links env \<Longrightarrow> ?thesis"
    unfolding env new_PolyairExtension_def initWebGL_def initShaders_def Let_def case_prod_beta
    by (cases w2; cases w1)
       (simp_all add: getContext_def compileShader_def fresh_context_def gl_createProgram_def
         gl_attachShader_def gl_linkProgram_def gl_LINK_STATUS_def gl_getAttribLocation_def
         gl_getUniformLocation_def gl_enable_BLEND_def gl_blendFunc_def gl_clearColor_def
         gl_clear_def ready_def info_plain_def)
qed

subsection \<open>Resolution\<close>

lemma resolution_presets:
  "resolution_or_1080p ''480p'' = Res 854 480"
  "resolution_or_1080p ''720p'' = Res 1280 720"
  "resolution_or_1080p ''1080p'' = Res 1920 1080"
  "resolution_or_1080p ''2K'' = Res 2560 1440"
  "resolution_or_1080p ''4K'' = Res 3840 2160"
  by (simp_all add: resolution_or_1080p_def get_resolution_def resolutions_def)

lemma resolution_unknown_name:
  "map_of resolutions q = None \<Longrightarrow> q \<notin> set Object_prototype \<Longrightarrow>
   resolution_or_1080p q = Res 1920 1080"
  by (simp add: resolution_or_1080p_def get_resolution_def)

lemma setResolution_eq:
  "setResolution q s =
     Inr (s\<lparr>resolution := resolution_or_1080p q, targetResolution := q,
            glCanvas := map_option
              (\<lambda>c. c\<lparr>cv_width := to_long (res_width (resolution_or_1080p q)),
                      cv_height := to_long (res_height (resolution_or_1080p q))\<rparr>) (glCanvas s),
            gl := map_option
              (\<lambda>g. g\<lparr>viewport := (0, 0, to_long (res_width (resolution_or_1080p q)),
                                   to_long (res_height (resolution_or_1080p q))),
                      clear_color := (0, 0, 0, 0), drawing_buffer := transparent\<rparr>) (gl s)\<rparr>)"
  unfolding setResolution_def Let_def
  by (cases "glCanvas s"; cases "gl s")
     (simp_all add: assign_canvas_width_def assign_canvas_height_def gl_viewport_def
       gl_clearColor_def gl_clear_def transparent_def)

lemma setResolution_gpuSprites:
  "gpuSprites (state_of (setResolution q s)) = gpuSprites s"
  by (simp add: setResolution_eq state_of_def)

lemma setResolution_penWidth:
  "penWidth (state_of (setResolution q s)) = penWidth s"
  by (simp add: setResolution_eq state_of_def)

text \<open>
  The parts of C5 that hold: each of the five names of the table gives its entry, a
  name that is neither in the table nor inherited from \<open>Object.prototype\<close> gives
  1920 x 1080, and a new instance has 854 x 480.
\<close>

lemma setResolution_presets:
  "resolution (state_of (setResolution ''480p'' s)) = Res 854 480"
  "resolution (state_of (setResolution ''720p'' s)) = Res 1280 720"
  "resolution (state_of (setResolution ''1080p'' s)) = Res 1920 1080"
  "resolution (state_of (setResolution ''2K'' s)) = Res 2560 1440"
  "resolution (state_of (setResolution ''4K'' s)) = Res 3840 2160"
  by (simp_all add: setResolution_eq state_of_def resolution_presets)

lemma setResolution_unknown_name:
  "map_of resolutions q = None \<Longrightarrow> q \<notin> set Object_prototype \<Longrightarrow>
   resolution (state_of (setResolution q s)) = Res 1920 1080"
  by (simp add: setResolution_eq state_of_def resolution_unknown_name)

text \<open>
  C5, at the input where the code departs from it: the name \<open>constructor\<close> is not in
  the table, yet the lookup finds the property every object inherits, the fallback to
  1080p is not taken, and the instance is left with a resolution that has neither a
  width nor a height.
\<close>

theorem setResolution_inherited_name:
  "resolution (state_of (setResolution ''constructor'' s)) = Inherited ''constructor''
   \<and> getResolutionWidth (state_of (setResolution ''constructor'' s)) = None
   \<and> getResolutionHeight (state_of (setResolution ''constructor'' s)) = None"
  by (simp add: setResolution_eq state_of_def getResolutionWidth_def getResolutionHeight_def
      resolution_or_1080p_def get_resolution_def resolutions_def Object_prototype_def)

text \<open>
  C9. \<open>setResolution\<close> is idempotent under repetition with the same name: the second
  call in a row returns exactly the state the first returned, so the dimensions are
  the same after both; neither call throws; and whenever the instance has a context,
  its drawing buffer is the fully transparent, empty one after the first call and
  after the second.
\<close>

theorem setResolution_idempotent:
  "setResolution q (state_of (setResolution q s)) = setResolution q s
   \<and> \<not> threw (setResolution q s)
   \<and> resolution (state_of (setResolution q s)) = resolution_or_1080p q
   \<and> getResolutionWidth (state_of (setResolution q (state_of (setResolution q s))))
       = getResolutionWidth (state_of (setResolution q s))
   \<and> getResolutionHeight (state_of (setResolution q (state_of (setResolution q s))))
       = getResolutionHeight (state_of (setResolution q s))
   \<and> map_option drawing_buffer (gl (state_of (setResolution q s)))
       = map_option (\<lambda>g. transparent) (gl s)
   \<and> map_option drawing_buffer (gl (state_of (setResolution q (state_of (setResolution q s)))))
       = map_option (\<lambda>g. transparent) (gl s)"
proof -
  have twice: "setResolution q (state_of (setResolution q s)) = setResolution q s"
    by (cases "glCanvas s"; cases "gl s") (simp_all add: setResolution_eq state_of_def)
  have once: "map_option drawing_buffer (gl (state_of (setResolution q s)))
       = map_option (\<lambda>g. transparent) (gl s)"
    by (cases "gl s") (simp_all add: setResolution_eq state_of_def)
  show ?thesis
    unfolding twice using once by (simp add: setResolution_eq state_of_def threw_def)
qed

text \<open>
  C2, as amended. Without a graphics context, \<open>setResolution\<close> of
  \<open>polyair-extension.js\<close> returns normally for every name; it stores the resolution
  and the name, resizes the canvas if there is one (that step is guarded by the canvas,
  not by the context), and does nothing else: no viewport, no clear.
\<close>

theorem setResolution_without_context:
  "gl s = None \<Longrightarrow>
   setResolution q s =
     Inr (s\<lparr>resolution := resolution_or_1080p q, targetResolution := q,
            glCanvas := map_option
              (\<lambda>c. \<lparr>cv_width = to_long (res_width (resolution_or_1080p q)),
                     cv_height = to_long (res_height (resolution_or_1080p q))\<rparr>) (glCanvas s)\<rparr>)"
  by (cases "glCanvas s") (simp_all add: setResolution_eq)

theorem setResolution_without_context_witness:
  "gl (new_PolyairExtension browser_without_webgl) = None
   \<and> setResolution ''720p'' (new_PolyairExtension browser_without_webgl) =
       Inr ((new_PolyairExtension browser_without_webgl)
              \<lparr>resolution := Res 1280 720, targetResolution := ''720p'',
               glCanvas := Some \<lparr>cv_width = 1280, cv_height = 720\<rparr>\<rparr>)"
proof -
  have h: "gl (new_PolyairExtension browser_without_webgl) = None"
    by (simp add: new_without_webgl)
  show ?thesis
    using h setResolution_without_context [OF h, of "''720p''"]
    by (simp add: new_without_webgl resolution_presets to_long_def)
qed

text \<open>
  C2 as stated fails: in a browser without WebGL the canvas exists, no context does,
  and \<open>setResolution\<close> does resize the canvas. In the older variant, which has none
  of the guards, the same call throws a TypeError.
\<close>

theorem setResolution_resizes_canvas_without_context:
  "gl (new_PolyairExtension browser_without_webgl) = None
   \<and> glCanvas (new_PolyairExtension browser_without_webgl) = Some \<lparr>cv_width = 854, cv_height = 480\<rparr>
   \<and> glCanvas (state_of (setResolution ''720p'' (new_PolyairExtension browser_without_webgl)))
       = Some \<lparr>cv_width = 1280, cv_height = 720\<rparr>
   \<and> threw (setResolution_old ''720p''
         (state_of (new_PolyairExtension_old browser_without_webgl)))"
  unfolding new_old_without_webgl
  by (simp add: setResolution_eq state_of_def new_without_webgl resolution_presets to_long_def
      setResolution_old_def Let_def assign_canvas_width_def assign_canvas_height_def threw_def)

subsection \<open>Drawing\<close>

lemma drawGPULine_gpuSprites:
  "gpuSprites (state_of (drawGPULine x1 y1 x2 y2 s)) = gpuSprites s"
  unfolding drawGPULine_def Let_def case_prod_beta
  by (simp add: state_of_def split: option.splits)

lemma drawGPULine_penWidth:
  "penWidth (state_of (drawGPULine x1 y1 x2 y2 s)) = penWidth s"
  unfolding drawGPULine_def Let_def case_prod_beta
  by (simp add: state_of_def split: option.splits)

lemma drawGPULine_resolution:
  "resolution (state_of (drawGPULine x1 y1 x2 y2 s)) = resolution s"
  unfolding drawGPULine_def Let_def case_prod_beta
  by (simp add: state_of_def split: option.splits)

lemma drawGPULine_keeps_context:
  "(gl (state_of (drawGPULine x1 y1 x2 y2 s)) = None) = (gl s = None)"
  unfolding drawGPULine_def Let_def case_prod_beta
  by (simp add: state_of_def split: option.splits)

text \<open>
  The Ready state and a positive pen width hold after construction in a browser where
  everything succeeds, and after every sequence of calls from there.
\<close>

lemma call_block_keeps_pen_positive:
  "0 < penWidth s \<Longrightarrow> 0 < penWidth (snd (call_block b s))"
  by (cases b)
     (simp_all add: enableGPURendering_def disableGPURendering_def setPenColor_def setPenWidth_def
       clearGPUCanvas_def drawGPULine_penWidth setResolution_penWidth Let_def
       split: option.splits)

lemma setResolution_keeps_ready:
  "ready s \<Longrightarrow> ready (state_of (setResolution q s))"
  by (auto simp add: setResolution_eq state_of_def ready_def split: option.splits)

lemma drawGPULine_keeps_ready:
  assumes "ready s" and "0 < penWidth s"
  shows "ready (state_of (drawGPULine x1 y1 x2 y2 s))"
proof -
  from assms(1) obtain g p pr where p: "gl s = Some g" "shaderProgram s = Some p"
    "programs g p = Some pr" "linked pr" "vertex_stage pr = Some VS_plain"
    "programInfo s = Some (info_plain p)"
    by (auto simp add: ready_def split: option.splits)
  show ?thesis
    unfolding drawGPULine_ready [OF p assms(2)]
    using p by (simp add: state_of_def ready_def)
qed

lemma ready_cong:
  "gl s' = gl s \<Longrightarrow> shaderProgram s' = shaderProgram s \<Longrightarrow> programInfo s' = programInfo s \<Longrightarrow>
   ready s' = ready s"
  by (simp add: ready_def split: option.splits)

lemma ready_plain_blocks:
  "ready (enableGPURendering t s) = ready s"
  "ready (disableGPURendering t s) = ready s"
  "ready (setPenColor R G B s) = ready s"
  "ready (setPenWidth w s) = ready s"
  by (rule ready_cong;
      simp add: enableGPURendering_def disableGPURendering_def setPenColor_def setPenWidth_def
        Let_def)+

lemma call_block_keeps_ready:
  assumes "ready s" and "0 < penWidth s"
  shows "ready (snd (call_block b s))"
proof (cases b)
  case (SetResolution q)
  with setResolution_keeps_ready [OF assms(1)] show ?thesis by simp
next
  case (DrawGPULine x1 y1 x2 y2)
  with drawGPULine_keeps_ready [OF assms] show ?thesis by simp
next
  case ClearGPUCanvas
  with assms(1) show ?thesis
    by (auto simp add: clearGPUCanvas_def ready_def gl_clear_def gl_clearColor_def
        split: option.splits)
qed (simp_all add: assms(1) ready_plain_blocks)

lemma ready_after_calls:
  "ready s \<Longrightarrow> 0 < penWidth s \<Longrightarrow>
   ready (snd (call_blocks bs s)) \<and> 0 < penWidth (snd (call_blocks bs s))"
proof (induction bs arbitrary: s)
  case Nil
  then show ?case by simp
next
  case (Cons b bs)
  from Cons.IH [OF call_block_keeps_ready [OF Cons.prems] call_block_keeps_pen_positive [OF Cons.prems(2)]]
  show ?case
    by (simp add: split_beta)
qed

text \<open>
  The stored resolution is an entry of the table, after construction and after every
  sequence of calls in which no \<open>setResolution\<close> is given a name inherited from
  \<open>Object.prototype\<close>.
\<close>

lemma resolution_in_table:
  "q \<notin> set Object_prototype \<Longrightarrow> \<exists>w h. resolution_or_1080p q = Res w h"
  by (simp add: resolution_or_1080p_def get_resolution_def split: option.splits)

lemma call_block_keeps_resolution_in_table:
  assumes "\<exists>w h. resolution s = Res w h" and "\<forall>q. b = SetResolution q \<longrightarrow> q \<notin> set Object_prototype"
  shows "\<exists>w h. resolution (snd (call_block b s)) = Res w h"
proof (cases b)
  case (SetResolution q)
  with assms(2) resolution_in_table [of q] show ?thesis
    by (simp add: setResolution_eq state_of_def)
next
  case (DrawGPULine x1 y1 x2 y2)
  with assms(1) show ?thesis
    by (simp add: drawGPULine_resolution)
qed (use assms(1) in \<open>simp_all add: enableGPURendering_def disableGPURendering_def
      setPenColor_def setPenWidth_def clearGPUCanvas_def Let_def split: option.splits\<close>)

lemma resolution_in_table_after_calls:
  "\<exists>w h. resolution s = Res w h \<Longrightarrow> \<forall>q. SetResolution q \<in> set bs \<longrightarrow> q \<notin> set Object_prototype \<Longrightarrow>
   \<exists>w h. resolution (snd (call_blocks bs s)) = Res w h"
proof (induction bs arbitrary: s)
  case Nil
  then show ?case by simp
next
  case (Cons b bs)
  have "\<exists>w h. resolution (snd (call_block b s)) = Res w h"
    by (rule call_block_keeps_resolution_in_table [OF Cons.prems(1)]) (use Cons.prems(2) in auto)
  from Cons.IH [OF this] Cons.prems(2) show ?case
    by (simp add: split_beta)
qed

text \<open>
  One call of \<open>drawGPULine\<close> in the Ready state, with a positive pen width, at a
  resolution of the table.
\<close>

lemma drawGPULine_in_ready_state:
  assumes "ready s" and "gl s = Some g" and "resolution s = Res w h" and "0 < penWidth s"
  shows "\<not> threw (drawGPULine x1 y1 x2 y2 s)
    \<and> map_option (strokes \<circ> drawing_buffer) (gl (state_of (drawGPULine x1 y1 x2 y2 s))) =
        Some (strokes (drawing_buffer g) @
          [\<lparr>pixel0 = (fround (js_add (js_div (Num (real w)) (Num 2)) x1),
                      fround (js_sub (js_div (Num (real h)) (Num 2)) y1)),
            pixel1 = (fround (js_add (js_div (Num (real w)) (Num 2)) x2),
                      fround (js_sub (js_div (Num (real h)) (Num 2)) y2)),
            clip0 = clip_space (Num (real w), Num (real h))
                      (fround (js_add (js_div (Num (real w)) (Num 2)) x1),
                       fround (js_sub (js_div (Num (real h)) (Num 2)) y1)),
            clip1 = clip_space (Num (real w), Num (real h))
                      (fround (js_add (js_div (Num (real w)) (Num 2)) x2),
                       fround (js_sub (js_div (Num (real h)) (Num 2)) y2)),
            color0 = [float32 (col_r (penColor s)), float32 (col_g (penColor s)),
                      float32 (col_b (penColor s)), float32 (col_a (penColor s))],
            color1 = [float32 (col_r (penColor s)), float32 (col_g (penColor s)),
                      float32 (col_b (penColor s)), float32 (col_a (penColor s))],
            stroke_width = penWidth s\<rparr>])
    \<and> map_option (background \<circ> drawing_buffer) (gl (state_of (drawGPULine x1 y1 x2 y2 s))) =
        Some (background (drawing_buffer g))
    \<and> map_option buffers (gl (state_of (drawGPULine x1 y1 x2 y2 s))) =
        Some ((buffers g)(next_buffer g := None, Suc (next_buffer g) := None))
    \<and> (state_of (drawGPULine x1 y1 x2 y2 s))\<lparr>gl := gl s\<rparr> = s"
proof -
  from assms(1,2) obtain p pr where p: "shaderProgram s = Some p" "programs g p = Some pr"
    "linked pr" "vertex_stage pr = Some VS_plain" "programInfo s = Some (info_plain p)"
    by (auto simp add: ready_def split: option.splits)
  show ?thesis
    by (simp add: drawGPULine_ready [OF assms(2) p assms(4)] assms(2,3) state_of_def threw_def
        to_number_def del: clip_space.simps)
qed

text \<open>
  C4, as amended. Take a browser that hands out a context, compiles both stages and
  links the program, and any sequence of block calls after construction in which no
  \<open>setResolution\<close> is given a name inherited from \<open>Object.prototype\<close>. In the state
  reached, the resolution is an entry \<open>w\<close> x \<open>h\<close> of the table, and \<open>drawGPULine\<close>
  returns and adds exactly one segment to the drawing buffer. Each of its two vertices
  is the end point moved to the centre, \<open>w / 2 + x\<close> and \<open>h / 2 - y\<close> computed in double
  precision, and then rounded to single precision by the \<open>Float32Array\<close> it is stored
  in. The segment has the stored pen colour, rounded to single precision, at both
  vertices, and the stored pen width, and the vertex stage maps it to clip space by the
  resolution. The two buffers the call created are deleted again, and no field of the
  instance other than the context changes. The coordinates may be any numbers, the
  infinities included. The witness is the scenario of the specification, where the
  rounding changes nothing: after \<open>setResolution('4K')\<close>, \<open>drawGPULine(0, 0, 100, 100)\<close>
  draws the segment from (1920, 1080) to (2020, 980).
\<close>

theorem drawGPULine_centers_the_line:
  assumes "webgl2_available env \<or> webgl1_available env" and "vertex_compiles env"
    and "fragment_compiles env" and "program_links env"
    and "\<forall>q. SetResolution q \<in> set bs \<longrightarrow> q \<notin> set Object_prototype"
    and "s = snd (call_blocks bs (new_PolyairExtension env))"
  shows "\<exists>w h g. resolution s = Res w h \<and> gl s = Some g
    \<and> \<not> threw (drawGPULine x1 y1 x2 y2 s)
    \<and> map_option (strokes \<circ> drawing_buffer) (gl (state_of (drawGPULine x1 y1 x2 y2 s))) =
        Some (strokes (drawing_buffer g) @
          [\<lparr>pixel0 = (fround (js_add (js_div (Num (real w)) (Num 2)) x1),
                      fround (js_sub (js_div (Num (real h)) (Num 2)) y1)),
            pixel1 = (fround (js_add (js_div (Num (real w)) (Num 2)) x2),
                      fround (js_sub (js_div (Num (real h)) (Num 2)) y2)),
            clip0 = clip_space (Num (real w), Num (real h))
                      (fround (js_add (js_div (Num (real w)) (Num 2)) x1),
                       fround (js_sub (js_div (Num (real h)) (Num 2)) y1)),
            clip1 = clip_space (Num (real w), Num (real h))
                      (fround (js_add (js_div (Num (real w)) (Num 2)) x2),
                       fround (js_sub (js_div (Num (real h)) (Num 2)) y2)),
            color0 = [float32 (col_r (penColor s)), float32 (col_g (penColor s)),
                      float32 (col_b (penColor s)), float32 (col_a (penColor s))],
            color1 = [float32 (col_r (penColor s)), float32 (col_g (penColor s)),
                      float32 (col_b (penColor s)), float32 (col_a (penColor s))],
            stroke_width = penWidth s\<rparr>])
    \<and> map_option (background \<circ> drawing_buffer) (gl (state_of (drawGPULine x1 y1 x2 y2 s))) =
        Some (background (drawing_buffer g))
    \<and> map_option buffers (gl (state_of (drawGPULine x1 y1 x2 y2 s))) =
        Some ((buffers g)(next_buffer g := None, Suc (next_buffer g) := None))
    \<and> (state_of (drawGPULine x1 y1 x2 y2 s))\<lparr>gl := gl s\<rparr> = s"
proof -
  have "ready (new_PolyairExtension env)"
    by (rule new_ready_general [OF assms(1-4)])
  from ready_after_calls [OF this, of bs] have r: "ready s" and pw: "0 < penWidth s"
    by (simp_all add: new_penWidth assms(6))
  from resolution_in_table_after_calls [OF _ assms(5), of "new_PolyairExtension env"]
  obtain w h where d: "resolution s = Res w h"
    by (auto simp add: new_resolution assms(6))
  from r obtain g where g: "gl s = Some g"
    by (auto simp add: ready_def split: option.splits)
  from drawGPULine_in_ready_state [OF r g d pw, of x1 y1 x2 y2] d g show ?thesis
    by blast
qed

lemma state_4K:
  "state_of (setResolution ''4K'' (new_PolyairExtension browser_ok)) =
     (new_PolyairExtension browser_ok)
       \<lparr>resolution := Res 3840 2160, targetResolution := ''4K'',
        glCanvas := Some \<lparr>cv_width = 3840, cv_height = 2160\<rparr>,
        gl := map_option (\<lambda>g. g\<lparr>viewport := (0, 0, 3840, 2160), clear_color := (0, 0, 0, 0),
                drawing_buffer := transparent\<rparr>) (gl (new_PolyairExtension browser_ok))\<rparr>"
  by (simp add: setResolution_eq state_of_def resolution_presets to_long_def new_ready_state)

lemma vertices_4K:
  "fround (js_add (js_div (Num 3840) (Num 2)) (Num 0)) = Num 1920"
  "fround (js_sub (js_div (Num 2160) (Num 2)) (Num 0)) = Num 1080"
  "fround (js_add (js_div (Num 3840) (Num 2)) (Num 100)) = Num 2020"
  "fround (js_sub (js_div (Num 2160) (Num 2)) (Num 100)) = Num 980"
  using vertex_x_exact [of 3840 0] vertex_y_exact [of 2160 0]
    vertex_x_exact [of 3840 100] vertex_y_exact [of 2160 100]
  by simp_all

lemma float32_1: "float32 1 = Num 1"
  using float32_of_int [of 1] by simp

theorem drawGPULine_centers_the_line_witness:
  "(webgl2_available browser_ok \<or> webgl1_available browser_ok) \<and> vertex_compiles browser_ok
   \<and> fragment_compiles browser_ok \<and> program_links browser_ok
   \<and> ''4K'' \<notin> set Object_prototype
   \<and> \<not> threw (drawGPULine (Num 0) (Num 0) (Num 100) (Num 100)
          (snd (call_blocks [SetResolution ''4K''] (new_PolyairExtension browser_ok))))
   \<and> map_option (strokes \<circ> drawing_buffer)
        (gl (state_of (drawGPULine (Num 0) (Num 0) (Num 100) (Num 100)
          (snd (call_blocks [SetResolution ''4K''] (new_PolyairExtension browser_ok)))))) =
       Some [\<lparr>pixel0 = (Num 1920, Num 1080), pixel1 = (Num 2020, Num 980),
              clip0 = (Num 0, Num 0), clip1 = (Num (5 / 96), Num (5 / 54)),
              color0 = [Num 1, Num 1, Num 1, Num 1], color1 = [Num 1, Num 1, Num 1, Num 1],
              stroke_width = 1\<rparr>]
   \<and> map_option buffers
        (gl (state_of (drawGPULine (Num 0) (Num 0) (Num 100) (Num 100)
          (snd (call_blocks [SetResolution ''4K''] (new_PolyairExtension browser_ok)))))) =
       Some Map.empty"
proof -
  define s where "s = snd (call_blocks [SetResolution ''4K''] (new_PolyairExtension browser_ok))"
  have s: "s = state_of (setResolution ''4K'' (new_PolyairExtension browser_ok))"
    by (simp add: s_def split_beta)
  have env: "webgl2_available browser_ok \<or> webgl1_available browser_ok"
    "vertex_compiles browser_ok" "fragment_compiles browser_ok" "program_links browser_ok"
    by (simp_all add: browser_ok_def)
  have q: "\<forall>q. SetResolution q \<in> set [SetResolution ''4K''] \<longrightarrow> q \<notin> set Object_prototype"
    by (simp add: Object_prototype_def)
  have d: "resolution s = Res 3840 2160"
    unfolding s state_4K by simp
  have g: "gl s = Some g \<Longrightarrow> strokes (drawing_buffer g) = [] \<and> buffers g = Map.empty" for g
    unfolding s state_4K by (auto simp add: new_ready_state transparent_def fresh_context_def)
  have pen: "penColor s = \<lparr>col_r = 1, col_g = 1, col_b = 1, col_a = 1\<rparr>" "penWidth s = 1"
    unfolding s state_4K by (simp_all add: new_ready_state)
  from drawGPULine_centers_the_line [OF env q s_def, of "Num 0" "Num 0" "Num 100" "Num 100"]
  have "\<not> threw (drawGPULine (Num 0) (Num 0) (Num 100) (Num 100) s)
    \<and> map_option (strokes \<circ> drawing_buffer)
        (gl (state_of (drawGPULine (Num 0) (Num 0) (Num 100) (Num 100) s))) =
       Some [\<lparr>pixel0 = (Num 1920, Num 1080), pixel1 = (Num 2020, Num 980),
              clip0 = (Num 0, Num 0), clip1 = (Num (5 / 96), Num (5 / 54)),
              color0 = [Num 1, Num 1, Num 1, Num 1], color1 = [Num 1, Num 1, Num 1, Num 1],
              stroke_width = 1\<rparr>]
    \<and> map_option buffers
        (gl (state_of (drawGPULine (Num 0) (Num 0) (Num 100) (Num 100) s))) = Some Map.empty"
    using g by (auto simp add: d pen vertices_4K float32_1)
  with env q show ?thesis
    unfolding s_def by simp
qed

text \<open>
  Without the condition on the names the resolution need not be an entry of the table
  (C5): after \<open>setResolution('constructor')\<close> its width and height are undefined, and
  the vertices \<open>drawGPULine\<close> stores are NaN.
\<close>

lemma drawGPULine_after_inherited_name:
  "map_option (map pixel0 \<circ> strokes \<circ> drawing_buffer)
     (gl (state_of (drawGPULine (Num 0) (Num 0) (Num 100) (Num 100)
        (state_of (setResolution ''constructor'' (new_PolyairExtension browser_ok))))))
   = Some [(NaN, NaN)]"
proof -
  define s where "s = state_of (setResolution ''constructor'' (new_PolyairExtension browser_ok))"
  have r: "ready s"
    unfolding s_def by (rule setResolution_keeps_ready [OF new_ready])
  have d: "resolution s = Inherited ''constructor''"
    unfolding s_def
    by (simp add: setResolution_eq state_of_def resolution_or_1080p_def get_resolution_def
        resolutions_def Object_prototype_def)
  have pw: "0 < penWidth s"
    unfolding s_def by (simp add: setResolution_penWidth new_penWidth)
  from r obtain g p pr where p: "gl s = Some g" "shaderProgram s = Some p"
    "programs g p = Some pr" "linked pr" "vertex_stage pr = Some VS_plain"
    "programInfo s = Some (info_plain p)"
    by (auto simp add: ready_def split: option.splits)
  from p(1) have e: "strokes (drawing_buffer g) = []"
    unfolding s_def by (auto simp add: setResolution_eq state_of_def transparent_def)
  have "map_option (map pixel0 \<circ> strokes \<circ> drawing_buffer)
     (gl (state_of (drawGPULine (Num 0) (Num 0) (Num 100) (Num 100) s))) = Some [(NaN, NaN)]"
    unfolding drawGPULine_ready [OF p pw]
    by (simp add: state_of_def d e to_number_def js_div_def js_add_def js_sub_def nsub_def)
  then show ?thesis
    by (simp only: s_def)
qed

text \<open>
  C4 as stated fails, because the vertices are stored in single precision. At the
  resolution of a new instance, 854 x 480, the end point (16776790, 0) has the pixel
  coordinates (16777217, 240); the vertex drawn is at (16777216, 240).
\<close>

theorem drawGPULine_rounds_the_vertex:
  "map_option (map pixel0 \<circ> strokes \<circ> drawing_buffer)
     (gl (state_of (drawGPULine (Num 16776790) (Num 0) (Num 0) (Num 0)
        (new_PolyairExtension browser_ok)))) = Some [(Num 16777216, Num 240)]
   \<and> (854 :: real) / 2 + 16776790 = 16777217"
proof -
  have r: "ready (new_PolyairExtension browser_ok)"
    by (rule new_ready)
  have g: "gl (new_PolyairExtension browser_ok) = Some g \<Longrightarrow> strokes (drawing_buffer g) = []" for g
    by (auto simp add: new_ready_state transparent_def fresh_context_def)
  from r obtain g where gl: "gl (new_PolyairExtension browser_ok) = Some g"
    by (auto simp add: ready_def split: option.splits)
  have c: "js_div (Num 854) (Num 2) = Num 427" "js_div (Num 480) (Num 2) = Num 240"
    using float64_of_int [of 427] float64_of_int [of 240] by (simp_all add: js_div_def)
  have v: "fround (js_add (Num 427) (Num 16776790)) = Num 16777216"
    "fround (js_sub (Num 240) (Num 0)) = Num 240"
    using float64_of_int [of 16777217] float64_of_int [of 240] float32_of_int [of 240]
    by (simp_all add: js_add_def js_sub_def nsub_def float32_16777217)
  from drawGPULine_in_ready_state [OF r gl new_resolution, of "Num 16776790" "Num 0" "Num 0" "Num 0"]
  show ?thesis
    using g [OF gl] by (auto simp add: new_penWidth c v)
qed

subsection \<open>Degraded states\<close>

text \<open>
  The parts of C1 that hold: without a context, and after a stage failed to compile,
  \<open>drawGPULine\<close> returns at once and leaves the instance as it is. After a failed
  link it throws, in every browser.
\<close>

lemma drawGPULine_without_program:
  "gl s = None \<or> shaderProgram s = None \<Longrightarrow> drawGPULine x1 y1 x2 y2 s = Inr s"
  by (auto simp add: drawGPULine_def split: option.splits)

lemma draw_is_noop_after_compile_failure:
  "\<not> vertex_compiles env \<or> \<not> fragment_compiles env \<Longrightarrow>
   drawGPULine x1 y1 x2 y2 (new_PolyairExtension env) = Inr (new_PolyairExtension env)"
  by (simp add: drawGPULine_without_program new_compile_failure)

lemma draw_is_noop_without_context:
  "\<not> webgl2_available env \<Longrightarrow> \<not> webgl1_available env \<Longrightarrow>
   drawGPULine x1 y1 x2 y2 (new_PolyairExtension env) = Inr (new_PolyairExtension env)"
  by (simp add: drawGPULine_without_program new_context)

lemma draw_after_compile_failure:
  "drawGPULine (Num 0) (Num 0) (Num 100) (Num 100) (new_PolyairExtension browser_compile_fails)
     = Inr (new_PolyairExtension browser_compile_fails)"
  by (rule draw_is_noop_after_compile_failure) (simp add: browser_compile_fails_def)

lemma draw_throws_when_link_fails:
  assumes "webgl2_available env \<or> webgl1_available env" and "vertex_compiles env"
    and "fragment_compiles env" and "\<not> program_links env"
  shows "drawGPULine x1 y1 x2 y2 (new_PolyairExtension env)
     = Inl (TypeError, new_PolyairExtension env)"
proof -
  obtain w2 w1 vc fc pl where env: "env = \<lparr>webgl2_available = w2, webgl1_available = w1,
     vertex_compiles = vc, fragment_compiles = fc, program_links = pl\<rparr>"
    by (cases env) simp
  from assms have f: "w2 \<or> w1" "vc" "fc" "\<not> pl"
    by (simp_all add: env)
  have "\<exists>g pr. gl (new_PolyairExtension env) = Some g \<and> shaderProgram (new_PolyairExtension env) = Some 0
      \<and> programs g 0 = Some pr \<and> \<not> linked pr \<and> programInfo (new_PolyairExtension env) = None"
    using f unfolding env new_PolyairExtension_def initWebGL_def initShaders_def Let_def case_prod_beta
    by (cases w2; cases w1)
       (simp_all add: getContext_def compileShader_def fresh_context_def gl_createProgram_def
         gl_attachShader_def gl_linkProgram_def gl_LINK_STATUS_def gl_enable_BLEND_def
         gl_blendFunc_def gl_clearColor_def gl_clear_def)
  then obtain g pr where "gl (new_PolyairExtension env) = Some g"
    "shaderProgram (new_PolyairExtension env) = Some 0" "programs g 0 = Some pr" "\<not> linked pr"
    "programInfo (new_PolyairExtension env) = None"
    by blast
  then show ?thesis
    by (simp add: drawGPULine_def gl_useProgram_def gl_LINK_STATUS_def)
qed

text \<open>
  C1, at the input where the code departs from it. When both stages compile and the
  program does not link, \<open>initShaders\<close> has already stored the program object in
  \<open>shaderProgram\<close> and returns before it stores \<open>programInfo\<close>. The guard of
  \<open>drawGPULine\<close> tests \<open>shaderProgram\<close> only, so the call goes on to read
  \<open>this.programInfo.uniformLocations\<close> and throws a TypeError.
\<close>

theorem drawGPULine_throws_after_link_failure:
  "shaderProgram (new_PolyairExtension browser_link_fails) = Some 0
   \<and> programInfo (new_PolyairExtension browser_link_fails) = None
   \<and> drawGPULine (Num 0) (Num 0) (Num 100) (Num 100) (new_PolyairExtension browser_link_fails)
       = Inl (TypeError, new_PolyairExtension browser_link_fails)"
  unfolding new_link_failure
  by (simp add: drawGPULine_def gl_useProgram_def gl_LINK_STATUS_def)

subsection \<open>Pen\<close>

lemma max_min_clamp: "max 0 (min 255 x) = clamp x 0 255"
  by (simp add: clamp_def max_def min_def)

lemma clamp_unit: "0 \<le> clamp x 0 255 / 255 \<and> clamp x 0 255 / 255 \<le> 1"
  by (simp add: clamp_def)

text \<open>
  C6. After \<open>setPenColor(r, g, b)\<close> every stored colour component is the input clamped
  to [0, 255] and divided by 255, so it lies in [0, 1]; the stored alpha is 1.
\<close>

theorem setPenColor_clamps:
  "penColor (setPenColor R G B s) =
     \<lparr>col_r = clamp R 0 255 / 255, col_g = clamp G 0 255 / 255,
      col_b = clamp B 0 255 / 255, col_a = 1\<rparr>
   \<and> 0 \<le> col_r (penColor (setPenColor R G B s)) \<and> col_r (penColor (setPenColor R G B s)) \<le> 1
   \<and> 0 \<le> col_g (penColor (setPenColor R G B s)) \<and> col_g (penColor (setPenColor R G B s)) \<le> 1
   \<and> 0 \<le> col_b (penColor (setPenColor R G B s)) \<and> col_b (penColor (setPenColor R G B s)) \<le> 1
   \<and> col_a (penColor (setPenColor R G B s)) = 1"
  using clamp_unit [of R] clamp_unit [of G] clamp_unit [of B]
  by (simp add: setPenColor_def Let_def max_min_clamp)

theorem setPenColor_clamps_witness:
  "penColor (setPenColor 300 (- 10) 128 (new_PolyairExtension browser_ok)) =
     \<lparr>col_r = 1, col_g = 0, col_b = 128 / 255, col_a = 1\<rparr>"
  using setPenColor_clamps [of 300 "- 10" 128 "new_PolyairExtension browser_ok"]
  by (simp add: clamp_def)

text \<open>
  C7. After \<open>setPenWidth(w)\<close> the stored pen width is 1 when w < 1, negative values
  included, and w itself when w \<ge> 1.
\<close>

theorem setPenWidth_at_least_one:
  "penWidth (setPenWidth w s) = (if w < 1 then 1 else w)"
  by (simp add: setPenWidth_def max_def)

theorem setPenWidth_at_least_one_witness:
  "penWidth (setPenWidth 0 (new_PolyairExtension browser_ok)) = 1
   \<and> penWidth (setPenWidth (- 3) (new_PolyairExtension browser_ok)) = 1
   \<and> penWidth (setPenWidth (5 / 2) (new_PolyairExtension browser_ok)) = 5 / 2"
  using setPenWidth_at_least_one [of 0 "new_PolyairExtension browser_ok"]
    setPenWidth_at_least_one [of "- 3" "new_PolyairExtension browser_ok"]
    setPenWidth_at_least_one [of "5 / 2" "new_PolyairExtension browser_ok"]
  by simp

subsection \<open>Flags\<close>

lemma call_block_gpuSprites:
  "gpuSprites (snd (call_block b s)) =
     (case b of
        EnableGPURendering t \<Rightarrow> insert t (gpuSprites s)
      | DisableGPURendering t \<Rightarrow> gpuSprites s - {t}
      | _ \<Rightarrow> gpuSprites s)"
  by (cases b)
     (simp_all add: enableGPURendering_def disableGPURendering_def setPenColor_def setPenWidth_def
       clearGPUCanvas_def drawGPULine_gpuSprites setResolution_gpuSprites Let_def
       split: option.splits)

lemma never_enabled:
  "i \<notin> gpuSprites s \<Longrightarrow> \<forall>b \<in> set bs. b \<noteq> EnableGPURendering i \<Longrightarrow>
   i \<notin> gpuSprites (snd (call_blocks bs s))"
proof (induction bs arbitrary: s)
  case Nil
  then show ?case by simp
next
  case (Cons b bs)
  have "i \<notin> gpuSprites (snd (call_block b s))"
    using Cons.prems by (auto simp add: call_block_gpuSprites split: block.splits)
  from Cons.IH [OF this] Cons.prems(2) show ?case
    by (simp add: split_beta)
qed

text \<open>
  C8. The flags are a set of sprites. After \<open>enable(i)\<close> the sprite \<open>i\<close> is enabled;
  after a following \<open>disable(i)\<close> it is not; a new instance has no sprite enabled, and
  neither has any instance for a sprite that no call has enabled since construction;
  enabling or disabling another sprite leaves the answer for \<open>i\<close> as it was; a second
  \<open>enable(i)\<close> or \<open>disable(i)\<close> in a row changes nothing.
\<close>

theorem gpu_flags_are_a_set:
  "isGPUEnabled i (enableGPURendering i s)
   \<and> \<not> isGPUEnabled i (disableGPURendering i (enableGPURendering i s))
   \<and> \<not> isGPUEnabled i (new_PolyairExtension env)
   \<and> ((\<forall>b \<in> set bs. b \<noteq> EnableGPURendering i)
        \<longrightarrow> \<not> isGPUEnabled i (snd (call_blocks bs (new_PolyairExtension env))))
   \<and> isGPUEnabled i (enableGPURendering j s) = (i = j \<or> isGPUEnabled i s)
   \<and> isGPUEnabled i (disableGPURendering j s) = (i \<noteq> j \<and> isGPUEnabled i s)
   \<and> enableGPURendering i (enableGPURendering i s) = enableGPURendering i s
   \<and> disableGPURendering i (disableGPURendering i s) = disableGPURendering i s"
proof -
  have "\<not> isGPUEnabled i (snd (call_blocks bs (new_PolyairExtension env)))"
    if "\<forall>b \<in> set bs. b \<noteq> EnableGPURendering i"
    using never_enabled [OF _ that, of "new_PolyairExtension env"]
    by (simp add: isGPUEnabled_def new_gpuSprites)
  then show ?thesis
    by (auto simp add: isGPUEnabled_def enableGPURendering_def disableGPURendering_def
        new_gpuSprites)
qed

theorem gpu_flags_are_a_set_witness:
  "isGPUEnabled ''A'' (snd (call_blocks [EnableGPURendering ''A'', DisableGPURendering ''B'']
       (new_PolyairExtension browser_ok)))
   \<and> \<not> isGPUEnabled ''B'' (snd (call_blocks [EnableGPURendering ''A'', DisableGPURendering ''B'']
       (new_PolyairExtension browser_ok)))"
proof -
  have a: "isGPUEnabled ''A'' (snd (call_blocks [EnableGPURendering ''A'', DisableGPURendering ''B'']
       (new_PolyairExtension browser_ok)))"
    by (simp add: isGPUEnabled_def enableGPURendering_def disableGPURendering_def)
  have b: "\<forall>b \<in> set [EnableGPURendering ''A'', DisableGPURendering ''B'']. b \<noteq> EnableGPURendering ''B''"
    by simp
  show ?thesis
    using a b gpu_flags_are_a_set [of "''B''" "new_PolyairExtension browser_ok" browser_ok
        "[EnableGPURendering ''A'', DisableGPURendering ''B'']" "''A''"]
    by blast
qed

subsection \<open>Blocks that do not touch the graphics\<close>

text \<open>
  C10. \<open>setPenColor\<close>, \<open>setPenWidth\<close>, \<open>enableGPURendering\<close>,
  \<open>disableGPURendering\<close>, \<open>isGPUEnabled\<close>, \<open>getResolutionWidth\<close> and
  \<open>getResolutionHeight\<close> neither read nor write the canvas, the context, the program
  or its locations: whatever these four fields hold, Ready or Degraded, each block
  changes the other fields in the same way, reports the same value and leaves the four
  as they are.
\<close>

theorem pen_and_flag_blocks_ignore_graphics:
  "setPenColor R G B (s\<lparr>glCanvas := c, gl := g, shaderProgram := p, programInfo := i\<rparr>)
     = (setPenColor R G B s)\<lparr>glCanvas := c, gl := g, shaderProgram := p, programInfo := i\<rparr>
   \<and> setPenWidth w (s\<lparr>glCanvas := c, gl := g, shaderProgram := p, programInfo := i\<rparr>)
     = (setPenWidth w s)\<lparr>glCanvas := c, gl := g, shaderProgram := p, programInfo := i\<rparr>
   \<and> enableGPURendering t (s\<lparr>glCanvas := c, gl := g, shaderProgram := p, programInfo := i\<rparr>)
     = (enableGPURendering t s)\<lparr>glCanvas := c, gl := g, shaderProgram := p, programInfo := i\<rparr>
   \<and> disableGPURendering t (s\<lparr>glCanvas := c, gl := g, shaderProgram := p, programInfo := i\<rparr>)
     = (disableGPURendering t s)\<lparr>glCanvas := c, gl := g, shaderProgram := p, programInfo := i\<rparr>
   \<and> isGPUEnabled t (s\<lparr>glCanvas := c, gl := g, shaderProgram := p, programInfo := i\<rparr>)
     = isGPUEnabled t s
   \<and> getResolutionWidth (s\<lparr>glCanvas := c, gl := g, shaderProgram := p, programInfo := i\<rparr>)
     = getResolutionWidth s
   \<and> getResolutionHeight (s\<lparr>glCanvas := c, gl := g, shaderProgram := p, programInfo := i\<rparr>)
     = getResolutionHeight s"
  by (simp add: setPenColor_def setPenWidth_def enableGPURendering_def disableGPURendering_def
      isGPUEnabled_def getResolutionWidth_def getResolutionHeight_def Let_def)

theorem pen_and_flag_blocks_ignore_graphics_witness:
  "setPenWidth 0 (new_PolyairExtension browser_ok)
     = (setPenWidth 0 (new_PolyairExtension browser_without_webgl))
         \<lparr>glCanvas := glCanvas (new_PolyairExtension browser_ok),
          gl := gl (new_PolyairExtension browser_ok),
          shaderProgram := shaderProgram (new_PolyairExtension browser_ok),
          programInfo := programInfo (new_PolyairExtension browser_ok)\<rparr>
   \<and> isGPUEnabled ''A'' (enableGPURendering ''A'' (new_PolyairExtension browser_ok))
     = isGPUEnabled ''A'' (enableGPURendering ''A'' (new_PolyairExtension browser_without_webgl))
   \<and> getResolutionWidth (new_PolyairExtension browser_ok)
     = getResolutionWidth (new_PolyairExtension browser_without_webgl)"
proof -
  have same: "(new_PolyairExtension browser_without_webgl)
         \<lparr>glCanvas := glCanvas (new_PolyairExtension browser_ok),
          gl := gl (new_PolyairExtension browser_ok),
          shaderProgram := shaderProgram (new_PolyairExtension browser_ok),
          programInfo := programInfo (new_PolyairExtension browser_ok)\<rparr>
      = new_PolyairExtension browser_ok"
    by (simp add: new_ready_state new_without_webgl)
  show ?thesis
    using pen_and_flag_blocks_ignore_graphics [where s = "new_PolyairExtension browser_without_webgl"
        and c = "glCanvas (new_PolyairExtension browser_ok)"
        and g = "gl (new_PolyairExtension browser_ok)"
        and p = "shaderProgram (new_PolyairExtension browser_ok)"
        and i = "programInfo (new_PolyairExtension browser_ok)" and w = 0 and t = "''A''"]
    by (simp add: same isGPUEnabled_def enableGPURendering_def getResolutionWidth_def new_resolution)
qed

subsection \<open>The two variants\<close>

text \<open>
  The identity matrix the older \<open>drawGPULine\<close> stores in \<open>u_transform\<close> leaves every
  finite vertex where it is.
\<close>

lemma identity_transform_finite:
  "apply_transform ((1, 0, 0), (0, 1, 0), (0, 0, 1)) (Num a, Num b) = (Num a, Num b)"
  by simp

text \<open>
  A coordinate is infinite when the sum has overflowed single precision. Then the
  products by the zeros of the matrix are NaN, under the IEEE rules the model gives
  the vertex stage.
\<close>

lemma identity_transform_infinite:
  "apply_transform ((1, 0, 0), (0, 1, 0), (0, 0, 1)) (PosInf, Num b) = (PosInf, NaN)"
  by (simp add: infinity_def)

text \<open>
  C3, at the input where the code departs from it. In a browser without WebGL the
  constructor of either variant leaves the context null. \<open>setResolution\<close> of
  \<open>polyair-extension.js\<close> tests the canvas and the context before it uses them, and
  returns. \<open>setResolution\<close> of the older variant calls \<open>this.gl.viewport\<close> untested,
  and throws a TypeError.
\<close>

theorem variants_differ_without_context:
  "fst (call_blocks_old [SetResolution ''720p'']
         (state_of (new_PolyairExtension_old browser_without_webgl))) = [Thrown TypeError]
   \<and> fst (call_blocks [SetResolution ''720p''] (new_PolyairExtension browser_without_webgl))
       = [Returned]"
  unfolding new_old_without_webgl
  by (simp add: state_of_def setResolution_eq setResolution_old_def Let_def new_without_webgl
      assign_canvas_width_def assign_canvas_height_def)

end
